theory Spec2Isabelle
  imports Main
begin

section \<open>Errors (src/utils/errors.js)\<close>

text \<open>
  \<open>AppError(message, statusCode, errorCode)\<close> and its subclasses are the operational
  errors. Anything else that can be thrown is non-operational: a \<open>TypeError\<close> of the
  JavaScript runtime, a plain \<open>new Error(message)\<close> (\<open>JsError\<close>), or a rejected
  storage call (\<open>PrismaError\<close>).

  The two messages of the source that contain an em dash are written here with two
  hyphens, since the strings of this theory are ASCII.
\<close>

datatype error =
    AppError string nat string
  | TypeError
  | JsError string
  | PrismaError

definition UnauthorizedError :: "string \<Rightarrow> error" where
  "UnauthorizedError message = AppError message 401 ''UNAUTHORIZED''"

definition ForbiddenError :: "string \<Rightarrow> error" where
  "ForbiddenError message = AppError message 403 ''FORBIDDEN''"

definition ForbiddenError_default :: string where
  "ForbiddenError_default = ''Forbidden -- insufficient permissions''"

definition NotFoundError :: "string \<Rightarrow> error" where
  "NotFoundError resource = AppError (resource @ '' not found'') 404 ''NOT_FOUND''"

section \<open>The relational store\<close>

text \<open>
  The tables the authentication and authorization code reads and writes, each a list of
  rows in insertion order. Identifiers are strings (UUIDs), timestamps are milliseconds
  since the epoch, as \<open>Date.now()\<close> gives them.
\<close>

record organization =
  org_id :: string
  org_slug :: string
  org_isActive :: bool

record user =
  usr_id :: string
  usr_email :: string
  usr_organizationId :: string
  usr_passwordHash :: string
  usr_firstName :: string
  usr_lastName :: string
  usr_isActive :: bool
  usr_lastLoginAt :: "nat option"

record refresh_token =
  rt_id :: string
  rt_token :: string
  rt_userId :: string
  rt_family :: string
  rt_expiresAt :: nat
  rt_isRevoked :: bool

record role =
  role_id :: string
  role_name :: string
  role_description :: string
  role_isSystem :: bool
  role_isActive :: bool

record permission =
  perm_id :: string
  perm_action :: string
  perm_isActive :: bool

record user_role =
  ur_userId :: string
  ur_roleId :: string

record role_permission =
  rp_roleId :: string
  rp_permissionId :: string

record db =
  organizations :: "organization list"
  users :: "user list"
  refreshTokens :: "refresh_token list"
  roles :: "role list"
  permissions :: "permission list"
  userRoles :: "user_role list"
  rolePermissions :: "role_permission list"

section \<open>The cache (src/config/redis.js)\<close>

text \<open>
  The code reaches the cache through the object \<open>cache\<close> with the methods
  \<open>get(key)\<close>, \<open>set(key, value, ttl)\<close> and \<open>delPattern(pattern)\<close>. The callers are
  modelled over any implementation of that interface: a record of the three methods,
  acting on a cache state of type \<open>'c\<close>. The values the code stores are arrays of
  strings (permission sets) and booleans (blacklist marks, feature flags).
\<close>

datatype cache_value = CList "string list" | CBool bool

record 'c cache_api =
  cache_get :: "'c \<Rightarrow> string \<Rightarrow> cache_value option"
  cache_set :: "'c \<Rightarrow> string \<Rightarrow> cache_value \<Rightarrow> int \<Rightarrow> 'c"
  cache_delPattern :: "'c \<Rightarrow> string \<Rightarrow> 'c"

text \<open>
  The implementation in src/config/redis.js: Redis is disabled, \<open>get\<close> answers
  \<open>null\<close> and the other methods do nothing.
\<close>

definition cache :: "'c cache_api" where
  "cache = \<lparr>cache_get = (\<lambda>_ _. None), cache_set = (\<lambda>c _ _ _. c),
            cache_delPattern = (\<lambda>c _. c)\<rparr>"

text \<open>
  Modelled from the spec: the Redis-backed cache that README.md and section 6 of the
  specification describe (a key-value store with \<open>get\<close>, \<open>set\<close> with a TTL in seconds,
  and delete-by-prefix) is not among the sources. \<open>kv_cache\<close> is such a store, as an
  association list from keys to values with their TTL; a pattern \<open>p*\<close> deletes the keys
  that start with \<open>p\<close>. It serves as the concrete cache on which the theorems below are
  instantiated.
\<close>

type_synonym kv_store = "(string \<times> cache_value \<times> int) list"

definition kv_cache :: "kv_store cache_api" where
  "kv_cache =
     \<lparr>cache_get = (\<lambda>c key. map_option fst (map_of c key)),
      cache_set = (\<lambda>c key v ttl. (key, v, ttl) # filter (\<lambda>e. fst e \<noteq> key) c),
      cache_delPattern = (\<lambda>c pat. filter (\<lambda>e. take (length pat - 1) (fst e) \<noteq> butlast pat) c)\<rparr>"

section \<open>Configuration (src/config/index.js)\<close>

definition permissionsTTL :: int where
  "permissionsTTL = 300"

section \<open>Authorization middleware (src/middleware/authorize.js)\<close>

text \<open>\<open>req.user\<close>, as the authentication middleware sets it from the access token.\<close>

record req_user =
  ru_id :: string
  ru_email :: string
  ru_organizationId :: string

text \<open>
  The query \<open>prisma.userRole.findMany({ where: { userId }, include: { role: { include:
  { rolePermissions: { include: { permission: true } } } } } })\<close>: the user's role
  assignments, each with its role (found by the assignment's role id), the role with its
  permission assignments, each with its permission (found by id). The query filters by
  user id only.
\<close>

type_synonym role_permission_incl = "role_permission \<times> permission option"
type_synonym role_incl = "role \<times> role_permission_incl list"
type_synonym user_role_incl = "user_role \<times> role_incl option"

definition userRole_findMany :: "db \<Rightarrow> string \<Rightarrow> user_role_incl list" where
  "userRole_findMany d userId =
     map (\<lambda>ur. (ur,
            map_option
              (\<lambda>r. (r, map (\<lambda>rp. (rp, find (\<lambda>p. perm_id p = rp_permissionId rp) (permissions d)))
                          (filter (\<lambda>rp. rp_roleId rp = role_id r) (rolePermissions d))))
              (find (\<lambda>r. role_id r = ur_roleId ur) (roles d))))
         (filter (\<lambda>ur. ur_userId ur = userId) (userRoles d))"

text \<open>
  \<open>[...new Set(xs)]\<close>: a JavaScript \<open>Set\<close> keeps the first occurrence of each element,
  in insertion order.
\<close>

definition js_set_add :: "'a \<Rightarrow> 'a list \<Rightarrow> 'a list" where
  "js_set_add x acc = (if x \<in> set acc then acc else acc @ [x])"

definition js_new_Set :: "'a list \<Rightarrow> 'a list" where
  "js_new_Set xs = fold js_set_add xs []"

text \<open>
  The flattening of the query's result: assignments whose role is present and active,
  then of each such role the permission assignments whose permission is present and
  active, mapped to the permission's action string.
\<close>

definition role_actions :: "user_role_incl \<Rightarrow> string list" where
  "role_actions ur =
     (case snd ur of
        None \<Rightarrow> []
      | Some (r, rps) \<Rightarrow>
          List.map_filter (\<lambda>rp. map_option perm_action (snd rp))
            (filter (\<lambda>rp. case snd rp of None \<Rightarrow> False | Some p \<Rightarrow> perm_isActive p) rps))"

definition flatten_permissions :: "user_role_incl list \<Rightarrow> string list" where
  "flatten_permissions userRoles' =
     js_new_Set
       (concat (map role_actions
          (filter (\<lambda>ur. case snd ur of None \<Rightarrow> False | Some (r, _) \<Rightarrow> role_isActive r)
             userRoles')))"

text \<open>
  What the middleware leaves behind: the argument it passes to \<open>next\<close> (\<open>None\<close> for the
  plain \<open>next()\<close> that lets the request through), the value it attaches as
  \<open>req.userPermissions\<close>, and the cache state.
\<close>

record 'c authorize_result =
  ar_next :: "error option"
  ar_userPermissions :: cache_value
  ar_cache :: 'c

text \<open>
  \<open>authorize(...requiredPermissions)\<close> applied to a request with \<open>req.user\<close> set.
  \<open>!userPermissions\<close> holds for \<open>null\<close> and for \<open>false\<close>; an empty array is truthy and
  counts as a hit. \<open>userPermissions.includes\<close> exists on arrays only: on a cached
  \<open>true\<close> the callback of \<open>some\<close> throws a TypeError (when there is a required
  permission to call it on), which the \<open>catch\<close> passes to \<open>next\<close>.
\<close>

definition authorize ::
  "string list \<Rightarrow> 'c cache_api \<Rightarrow> 'c \<Rightarrow> db \<Rightarrow> req_user \<Rightarrow> 'c authorize_result" where
  "authorize requiredPermissions C c d u =
     (let userId = ru_id u;
          orgId = ru_organizationId u;
          cacheKey = ''permissions:'' @ userId @ '':'' @ orgId;
          cached = cache_get C c cacheKey;
          miss = (case cached of None \<Rightarrow> True | Some (CBool b) \<Rightarrow> \<not> b | Some (CList _) \<Rightarrow> False);
          loaded = CList (flatten_permissions (userRole_findMany d userId));
          userPermissions = (if miss then loaded else (case cached of Some v \<Rightarrow> v | None \<Rightarrow> loaded));
          c' = (if miss then cache_set C c cacheKey loaded permissionsTTL else c)
      in case userPermissions of
           CList ps \<Rightarrow>
             \<lparr>ar_next = (if list_ex (\<lambda>perm. perm \<in> set ps) requiredPermissions then None
                          else Some (ForbiddenError ForbiddenError_default)),
              ar_userPermissions = userPermissions, ar_cache = c'\<rparr>
         | CBool _ \<Rightarrow>
             \<lparr>ar_next = (if requiredPermissions = [] then Some (ForbiddenError ForbiddenError_default)
                          else Some TypeError),
              ar_userPermissions = userPermissions, ar_cache = c'\<rparr>)"

section \<open>Signed tokens (the jsonwebtoken library)\<close>

text \<open>
  The payload of a token as the code reads and writes it: the access token carries
  \<open>sub\<close>, \<open>email\<close> and \<open>organizationId\<close>, the refresh token \<open>sub\<close>,
  \<open>organizationId\<close> and \<open>family\<close>; a decoded token has its expiry claim \<open>exp\<close>
  (seconds since the epoch) when it was signed with one.
\<close>

record claims =
  jwt_sub :: string
  jwt_email :: "string option"
  jwt_organizationId :: string
  jwt_family :: "string option"
  jwt_exp :: "int option"

text \<open>
  The library is a parameter of the services: \<open>jwt_sign payload secret expiresIn now\<close>
  is the token string, or the error \<open>jwt.sign\<close> throws (as it does for an
  \<open>expiresIn\<close> that is no time span), \<open>jwt_verify token secret now\<close> the payload of a token whose
  signature and expiry claim are valid at the clock \<open>now\<close> (\<open>None\<close> where
  \<open>jwt.verify\<close> throws), \<open>jwt_decode token\<close> the payload without any check
  (\<open>None\<close> where \<open>jwt.decode\<close> answers \<open>null\<close> or throws).
\<close>

record jwt_api =
  jwt_sign :: "claims \<Rightarrow> string \<Rightarrow> string \<Rightarrow> nat \<Rightarrow> error + string"
  jwt_verify :: "string \<Rightarrow> string \<Rightarrow> nat \<Rightarrow> claims option"
  jwt_decode :: "string \<Rightarrow> claims option"

section \<open>Configuration and helpers (src/config/index.js, src/utils/helpers.js)\<close>

record config =
  jwt_accessSecret :: string
  jwt_refreshSecret :: string
  jwt_accessExpiry :: string
  jwt_refreshExpiry :: string

text \<open>
  \<open>expiryToDate\<close>: the string must match \<open>/^(\d+)([smhd])$/\<close>; the result is the
  clock plus the count times the unit in milliseconds, and a string of another shape
  throws (\<open>None\<close>).
\<close>

definition digit_value :: "char \<Rightarrow> nat" where
  "digit_value ch = length (takeWhile (\<lambda>d. d \<noteq> ch) ''0123456789'')"

definition parseInt10 :: "string \<Rightarrow> nat" where
  "parseInt10 ds = fold (\<lambda>ch n. 10 * n + digit_value ch) ds 0"

definition units :: "char \<Rightarrow> nat option" where
  "units ch =
     (if ch = CHR ''s'' then Some 1000
      else if ch = CHR ''m'' then Some 60000
      else if ch = CHR ''h'' then Some 3600000
      else if ch = CHR ''d'' then Some 86400000
      else None)"

definition expiryToDate :: "string \<Rightarrow> nat \<Rightarrow> nat option" where
  "expiryToDate expiryString now =
     (case rev expiryString of
        [] \<Rightarrow> None
      | ch # sd \<Rightarrow>
          (case units ch of
             None \<Rightarrow> None
           | Some unit_ms \<Rightarrow>
               if sd \<noteq> [] \<and> list_all (\<lambda>x. x \<in> set ''0123456789'') sd
               then Some (now + parseInt10 (rev sd) * unit_ms)
               else None))"

section \<open>The environment of a service call\<close>

text \<open>
  What a call takes from outside the store: the clock (\<open>Date.now()\<close>, milliseconds),
  the value \<open>uuidv4()\<close> returns, and the id the store gives a created RefreshToken row.
  The storage calls are operations on the tables. For the writes whose failure the
  specification speaks about, whether the store rejects the call is an input as well:
  \<open>prisma.refreshToken.create\<close>, \<open>prisma.refreshToken.update\<close> (the revocation of the
  rotated token) and \<open>prisma.user.update\<close> (the last-login time).
\<close>

record env =
  env_now :: nat
  env_uuid :: string
  env_rowId :: string
  env_tokenCreate_rejects :: bool
  env_tokenUpdate_rejects :: bool
  env_userUpdate_rejects :: bool

section \<open>Auth service (class AuthService)\<close>

record token_pair =
  tp_accessToken :: string
  tp_refreshToken :: string

text \<open>
  \<open>_generateTokenPair(user, organizationId, family = null)\<close>. \<open>family || uuidv4()\<close>
  takes a fresh family when none is given (or an empty one). The access token is signed
  first, then the refresh token, then the expiry date of the row is computed, then the
  RefreshToken row is created; each of the four steps can throw, and nothing has been
  written when one of the first three does.

  Modelled from the spec: the Prisma schema is not among the sources, so the default of
  the column \<open>isRevoked\<close> is taken from section 3 of the specification (a token is
  created active and is marked revoked later): a created row has \<open>isRevoked = false\<close>.
\<close>

definition generateTokenPair ::
  "jwt_api \<Rightarrow> config \<Rightarrow> env \<Rightarrow> db \<Rightarrow> user \<Rightarrow> string \<Rightarrow> string option
     \<Rightarrow> (error + token_pair) \<times> db" where
  "generateTokenPair J cfg e d usr organizationId family =
     (let tokenFamily = (case family of None \<Rightarrow> env_uuid e
                         | Some f \<Rightarrow> if f = [] then env_uuid e else f)
      in case jwt_sign J
                \<lparr>jwt_sub = usr_id usr, jwt_email = Some (usr_email usr),
                 jwt_organizationId = organizationId, jwt_family = None, jwt_exp = None\<rparr>
                (jwt_accessSecret cfg) (jwt_accessExpiry cfg) (env_now e) of
           Inl err \<Rightarrow> (Inl err, d)
         | Inr accessToken \<Rightarrow>
             (case jwt_sign J
                     \<lparr>jwt_sub = usr_id usr, jwt_email = None,
                      jwt_organizationId = organizationId, jwt_family = Some tokenFamily,
                      jwt_exp = None\<rparr>
                     (jwt_refreshSecret cfg) (jwt_refreshExpiry cfg) (env_now e) of
                Inl err \<Rightarrow> (Inl err, d)
              | Inr refreshToken \<Rightarrow>
                  (case expiryToDate (jwt_refreshExpiry cfg) (env_now e) of
                     None \<Rightarrow>
                       (Inl (JsError (''Invalid expiry format: '' @ jwt_refreshExpiry cfg)), d)
                   | Some expiresAt \<Rightarrow>
                       if env_tokenCreate_rejects e then (Inl PrismaError, d)
                       else (Inr \<lparr>tp_accessToken = accessToken,
                                  tp_refreshToken = refreshToken\<rparr>,
                             d\<lparr>refreshTokens := refreshTokens d @
                                [\<lparr>rt_id = env_rowId e, rt_token = refreshToken,
                                  rt_userId = usr_id usr, rt_family = tokenFamily,
                                  rt_expiresAt = expiresAt, rt_isRevoked = False\<rparr>]\<rparr>))))"

text \<open>
  \<open>login({ email, password, organizationSlug })\<close>. \<open>bcrypt.compare\<close> is the parameter
  \<open>bcrypt_compare password hash\<close>. The rows a write touches are those that satisfy its
  \<open>where\<close>.
\<close>

type_synonym role_summary = "string \<times> string \<times> string \<times> bool"

record user_summary =
  us_id :: string
  us_email :: string
  us_firstName :: string
  us_lastName :: string
  us_organizationId :: string
  us_userRoles :: "(user_role \<times> role_summary option) list"

record login_result =
  lr_accessToken :: string
  lr_refreshToken :: string
  lr_user :: user_summary

definition login ::
  "(string \<Rightarrow> string \<Rightarrow> bool) \<Rightarrow> jwt_api \<Rightarrow> config \<Rightarrow> env \<Rightarrow> db
     \<Rightarrow> string \<Rightarrow> string \<Rightarrow> string \<Rightarrow> (error + login_result) \<times> db" where
  "login bcrypt_compare J cfg e d email password organizationSlug =
     (case find (\<lambda>org. org_slug org = organizationSlug) (organizations d) of
        None \<Rightarrow> (Inl (NotFoundError ''Organization''), d)
      | Some organization \<Rightarrow>
          if \<not> org_isActive organization then (Inl (NotFoundError ''Organization''), d)
          else
            (case find (\<lambda>u. usr_email u = email \<and> usr_organizationId u = org_id organization)
                    (users d) of
               None \<Rightarrow> (Inl (UnauthorizedError ''Invalid credentials''), d)
             | Some usr \<Rightarrow>
                 if \<not> usr_isActive usr then (Inl (UnauthorizedError ''Invalid credentials''), d)
                 else if \<not> bcrypt_compare password (usr_passwordHash usr)
                 then (Inl (UnauthorizedError ''Invalid credentials''), d)
                 else
                   (case generateTokenPair J cfg e d usr (org_id organization) None of
                      (Inl err, d1) \<Rightarrow> (Inl err, d1)
                    | (Inr tokens, d1) \<Rightarrow>
                        if env_userUpdate_rejects e then (Inl PrismaError, d1)
                        else
                          (let d2 = d1\<lparr>users :=
                                 map (\<lambda>u. if usr_id u = usr_id usr
                                           then u\<lparr>usr_lastLoginAt := Some (env_now e)\<rparr> else u)
                                   (users d1)\<rparr>;
                               userRoles' =
                                 map (\<lambda>ur. (ur,
                                        map_option
                                          (\<lambda>r. (role_id r, role_name r, role_description r,
                                                 role_isSystem r))
                                          (find (\<lambda>r. role_id r = ur_roleId ur) (roles d2))))
                                   (filter (\<lambda>ur. ur_userId ur = usr_id usr) (userRoles d2))
                           in (Inr \<lparr>lr_accessToken = tp_accessToken tokens,
                                    lr_refreshToken = tp_refreshToken tokens,
                                    lr_user =
                                      \<lparr>us_id = usr_id usr, us_email = usr_email usr,
                                       us_firstName = usr_firstName usr,
                                       us_lastName = usr_lastName usr,
                                       us_organizationId = org_id organization,
                                       us_userRoles = userRoles'\<rparr>\<rparr>,
                               d2)))))"

text \<open>
  \<open>refresh({ refreshToken })\<close>. The rotation is
  \<open>Promise.all([prisma.refreshToken.update(...), this._generateTokenPair(...)])\<close>: two
  independent calls, each of which takes effect unless the store rejects it, and the
  whole fails when one of them does. The update touches the stored row by its id, the
  creation appends a row, so the order in which the store serves them does not show in
  the resulting table; they are applied here in the order of the array.

  \<open>Promise.all\<close> rejects with the rejection that comes first. A token generation
  that throws while signing or computing the expiry date has rejected before the store
  answers the update, so its error is the one \<open>refresh\<close> throws, whatever becomes of
  the update (which is issued all the same). When only the store rejects, the error is
  the storage error, of the update or of the creation.
\<close>

definition refreshToken_updateMany_family :: "string \<Rightarrow> refresh_token list \<Rightarrow> refresh_token list" where
  "refreshToken_updateMany_family family rows =
     map (\<lambda>t. if rt_family t = family then t\<lparr>rt_isRevoked := True\<rparr> else t) rows"

definition refreshToken_update_id :: "string \<Rightarrow> refresh_token list \<Rightarrow> refresh_token list" where
  "refreshToken_update_id rid rows =
     map (\<lambda>t. if rt_id t = rid then t\<lparr>rt_isRevoked := True\<rparr> else t) rows"

definition refresh ::
  "jwt_api \<Rightarrow> config \<Rightarrow> env \<Rightarrow> db \<Rightarrow> string \<Rightarrow> (error + token_pair) \<times> db" where
  "refresh J cfg e d refreshToken =
     (case jwt_verify J refreshToken (jwt_refreshSecret cfg) (env_now e) of
        None \<Rightarrow> (Inl (UnauthorizedError ''Invalid refresh token''), d)
      | Some decoded \<Rightarrow>
          (case find (\<lambda>t. rt_token t = refreshToken) (refreshTokens d) of
             None \<Rightarrow> (Inl (UnauthorizedError ''Refresh token not found''), d)
           | Some storedToken \<Rightarrow>
               if rt_isRevoked storedToken
               then (Inl (UnauthorizedError ''Token reuse detected -- all sessions revoked''),
                     d\<lparr>refreshTokens := refreshToken_updateMany_family (rt_family storedToken) (refreshTokens d)\<rparr>)
               else if env_now e > rt_expiresAt storedToken
               then (Inl (UnauthorizedError ''Refresh token expired''), d)
               else
                 (case find (\<lambda>u. usr_id u = rt_userId storedToken) (users d) of
                    None \<Rightarrow> (Inl (UnauthorizedError ''User account is deactivated''), d)
                  | Some usr \<Rightarrow>
                      if \<not> usr_isActive usr
                      then (Inl (UnauthorizedError ''User account is deactivated''), d)
                      else
                        (let d1 = (if env_tokenUpdate_rejects e then d
                                   else d\<lparr>refreshTokens :=
                                          refreshToken_update_id (rt_id storedToken) (refreshTokens d)\<rparr>);
                             generated = generateTokenPair J cfg e d1 usr
                                           (jwt_organizationId decoded)
                                           (Some (rt_family storedToken))
                         in (case fst generated of
                               Inl err \<Rightarrow> Inl err
                             | Inr tokens \<Rightarrow>
                                 if env_tokenUpdate_rejects e then Inl PrismaError
                                 else Inr tokens,
                             snd generated)))))"

text \<open>
  \<open>logout({ accessToken, refreshToken, userId })\<close>, on the cache and the store. An
  absent or empty token is falsy and skips its part; so does a payload without \<open>exp\<close>
  or with \<open>exp = 0\<close>. \<open>Math.floor(Date.now() / 1000)\<close> is the clock in seconds.
\<close>

definition logout ::
  "jwt_api \<Rightarrow> 'c cache_api \<Rightarrow> env \<Rightarrow> 'c \<times> db \<Rightarrow> string option \<Rightarrow> string option \<Rightarrow> string
     \<Rightarrow> 'c \<times> db" where
  "logout J C e s accessToken refreshToken userId =
     (let c = fst s; d = snd s;
          c' = (case accessToken of
                  None \<Rightarrow> c
                | Some at \<Rightarrow>
                    if at = [] then c
                    else
                      (case jwt_decode J at of
                         None \<Rightarrow> c
                       | Some decoded \<Rightarrow>
                           (case jwt_exp decoded of
                              None \<Rightarrow> c
                            | Some ex \<Rightarrow>
                                if ex = 0 then c
                                else
                                  (let ttl = ex - int (env_now e div 1000)
                                   in if ttl > 0
                                      then cache_set C c (''blacklist:'' @ at) (CBool True) ttl
                                      else c))));
          d' = (case refreshToken of
                  None \<Rightarrow> d
                | Some rt \<Rightarrow>
                    if rt = [] then d
                    else d\<lparr>refreshTokens :=
                           map (\<lambda>t. if rt_token t = rt \<and> rt_userId t = userId
                                     then t\<lparr>rt_isRevoked := True\<rparr> else t)
                             (refreshTokens d)\<rparr>)
      in (c', d'))"

text \<open>\<open>forceLogout(userId)\<close>: every active token of the user, and the user's cached permission sets.\<close>

definition forceLogout :: "'c cache_api \<Rightarrow> 'c \<times> db \<Rightarrow> string \<Rightarrow> 'c \<times> db" where
  "forceLogout C s userId =
     (let c = fst s; d = snd s;
          d' = d\<lparr>refreshTokens :=
                 map (\<lambda>t. if rt_userId t = userId \<and> \<not> rt_isRevoked t
                           then t\<lparr>rt_isRevoked := True\<rparr> else t)
                   (refreshTokens d)\<rparr>
      in (cache_delPattern C c (''permissions:'' @ userId @ '':*''), d'))"

section \<open>The token family invariant\<close>

text \<open>
  The active (non-revoked) rows of a family, and the invariant of section 3 of the
  specification: no family has more than one active row. It is checked on the families
  that occur in the table; a family that does not occur has no active row.
\<close>

definition active_in_family :: "db \<Rightarrow> string \<Rightarrow> refresh_token list" where
  "active_in_family d family =
     filter (\<lambda>t. rt_family t = family \<and> \<not> rt_isRevoked t) (refreshTokens d)"

definition family_invariant :: "db \<Rightarrow> bool" where
  "family_invariant d =
     list_all (\<lambda>t. length (active_in_family d (rt_family t)) \<le> 1) (refreshTokens d)"

section \<open>The permission set, in the words of the specification\<close>

text \<open>
  The action strings of the active permissions attached to the active roles assigned to
  the user. It is the set the resolver is specified to compute; \<open>flatten_permissions\<close>
  above is what the middleware computes.
\<close>

definition spec_granted_actions :: "db \<Rightarrow> string \<Rightarrow> string set" where
  "spec_granted_actions d userId =
     {perm_action p | ur r rp p.
        ur \<in> set (userRoles d) \<and> ur_userId ur = userId \<and>
        find (\<lambda>r. role_id r = ur_roleId ur) (roles d) = Some r \<and> role_isActive r \<and>
        rp \<in> set (rolePermissions d) \<and> rp_roleId rp = role_id r \<and>
        find (\<lambda>p. perm_id p = rp_permissionId rp) (permissions d) = Some p \<and> perm_isActive p}"

section \<open>A small store for concrete evaluations\<close>

text \<open>
  Two active organizations and a deactivated one; an active manager with three role
  assignments (one of them to a deactivated role) and a deactivated user; three refresh
  tokens of the manager: a rotated (revoked) token and its successor in family
  \<open>fam-1\<close>, and the token of a second session in family \<open>fam-2\<close>.
\<close>

definition example_db :: db where
  "example_db =
     \<lparr>organizations =
        [\<lparr>org_id = ''o-1'', org_slug = ''acme-corp'', org_isActive = True\<rparr>,
         \<lparr>org_id = ''o-2'', org_slug = ''startup-inc'', org_isActive = True\<rparr>,
         \<lparr>org_id = ''o-3'', org_slug = ''closed-ltd'', org_isActive = False\<rparr>],
      users =
        [\<lparr>usr_id = ''u-1'', usr_email = ''manager@acme.com'', usr_organizationId = ''o-1'',
          usr_passwordHash = ''bcrypt(Admin@123)'', usr_firstName = ''Mia'',
          usr_lastName = ''Manager'', usr_isActive = True, usr_lastLoginAt = None\<rparr>,
         \<lparr>usr_id = ''u-2'', usr_email = ''former@acme.com'', usr_organizationId = ''o-1'',
          usr_passwordHash = ''bcrypt(Admin@123)'', usr_firstName = ''Fred'',
          usr_lastName = ''Former'', usr_isActive = False, usr_lastLoginAt = None\<rparr>],
      refreshTokens =
        [\<lparr>rt_id = ''rt-0'', rt_token = ''rs:u-1:fam-1:i'', rt_userId = ''u-1'',
          rt_family = ''fam-1'', rt_expiresAt = 604801000, rt_isRevoked = True\<rparr>,
         \<lparr>rt_id = ''rt-1'', rt_token = ''rs:u-1:fam-1:ii'', rt_userId = ''u-1'',
          rt_family = ''fam-1'', rt_expiresAt = 604802000, rt_isRevoked = False\<rparr>,
         \<lparr>rt_id = ''rt-2'', rt_token = ''rs:u-1:fam-2:i'', rt_userId = ''u-1'',
          rt_family = ''fam-2'', rt_expiresAt = 604801000, rt_isRevoked = False\<rparr>],
      roles =
        [\<lparr>role_id = ''r-1'', role_name = ''MANAGER'', role_description = ''Team manager'',
          role_isSystem = True, role_isActive = True\<rparr>,
         \<lparr>role_id = ''r-2'', role_name = ''USER'', role_description = ''Standard user'',
          role_isSystem = True, role_isActive = True\<rparr>,
         \<lparr>role_id = ''r-3'', role_name = ''LEGACY'', role_description = ''Retired role'',
          role_isSystem = False, role_isActive = False\<rparr>],
      permissions =
        [\<lparr>perm_id = ''p-1'', perm_action = ''USER_READ'', perm_isActive = True\<rparr>,
         \<lparr>perm_id = ''p-2'', perm_action = ''DASHBOARD_READ'', perm_isActive = True\<rparr>,
         \<lparr>perm_id = ''p-3'', perm_action = ''USER_UPDATE'', perm_isActive = True\<rparr>,
         \<lparr>perm_id = ''p-4'', perm_action = ''AUDIT_READ'', perm_isActive = False\<rparr>,
         \<lparr>perm_id = ''p-5'', perm_action = ''USER_DELETE'', perm_isActive = True\<rparr>],
      userRoles =
        [\<lparr>ur_userId = ''u-1'', ur_roleId = ''r-1''\<rparr>,
         \<lparr>ur_userId = ''u-1'', ur_roleId = ''r-2''\<rparr>,
         \<lparr>ur_userId = ''u-1'', ur_roleId = ''r-3''\<rparr>],
      rolePermissions =
        [\<lparr>rp_roleId = ''r-1'', rp_permissionId = ''p-3''\<rparr>,
         \<lparr>rp_roleId = ''r-1'', rp_permissionId = ''p-1''\<rparr>,
         \<lparr>rp_roleId = ''r-1'', rp_permissionId = ''p-4''\<rparr>,
         \<lparr>rp_roleId = ''r-2'', rp_permissionId = ''p-1''\<rparr>,
         \<lparr>rp_roleId = ''r-2'', rp_permissionId = ''p-2''\<rparr>,
         \<lparr>rp_roleId = ''r-3'', rp_permissionId = ''p-5''\<rparr>]\<rparr>"

definition example_user :: req_user where
  "example_user = \<lparr>ru_id = ''u-1'', ru_email = ''manager@acme.com'', ru_organizationId = ''o-1''\<rparr>"

text \<open>
  A small implementation of the token library for the same purpose: it signs when the
  expiry has the form \<open>expiryToDate\<close> accepts, and a token string is
  the secret, the subject, the family (or \<open>access\<close>) and the issuing second in
  unary; verification and decoding look the token up among the tokens issued so far
  (the last of them signed without an expiry), verification checking the secret and
  the expiry claim as well.
\<close>

definition example_tokens :: "(string \<times> claims) list" where
  "example_tokens =
     [(''rs:u-1:fam-1:i'',
       \<lparr>jwt_sub = ''u-1'', jwt_email = None, jwt_organizationId = ''o-1'',
        jwt_family = Some ''fam-1'', jwt_exp = Some 604801\<rparr>),
      (''rs:u-1:fam-1:ii'',
       \<lparr>jwt_sub = ''u-1'', jwt_email = None, jwt_organizationId = ''o-1'',
        jwt_family = Some ''fam-1'', jwt_exp = Some 604802\<rparr>),
      (''rs:u-1:fam-2:i'',
       \<lparr>jwt_sub = ''u-1'', jwt_email = None, jwt_organizationId = ''o-1'',
        jwt_family = Some ''fam-2'', jwt_exp = Some 604801\<rparr>),
      (''as:u-1:access:ii'',
       \<lparr>jwt_sub = ''u-1'', jwt_email = Some ''manager@acme.com'', jwt_organizationId = ''o-1'',
        jwt_family = None, jwt_exp = Some 902\<rparr>),
      (''as:u-1:access:'',
       \<lparr>jwt_sub = ''u-1'', jwt_email = Some ''manager@acme.com'', jwt_organizationId = ''o-1'',
        jwt_family = None, jwt_exp = None\<rparr>)]"

definition example_jwt :: jwt_api where
  "example_jwt =
     \<lparr>jwt_sign = (\<lambda>payload secret expiresIn now.
         case expiryToDate expiresIn now of
           None \<Rightarrow> Inl (JsError ''expiresIn should be a number of seconds or string representing a timespan'')
         | Some _ \<Rightarrow>
             Inr (secret @ '':'' @ jwt_sub payload @ '':'' @
                  (case jwt_family payload of None \<Rightarrow> ''access'' | Some f \<Rightarrow> f) @ '':'' @
                  replicate (now div 1000) (CHR ''i''))),
      jwt_verify = (\<lambda>token secret now.
         case map_of example_tokens token of
           None \<Rightarrow> None
         | Some payload \<Rightarrow>
             if take (length secret) token = secret \<and>
                (case jwt_exp payload of None \<Rightarrow> True | Some ex \<Rightarrow> int (now div 1000) < ex)
             then Some payload else None),
      jwt_decode = map_of example_tokens\<rparr>"

definition example_config :: config where
  "example_config =
     \<lparr>jwt_accessSecret = ''as'', jwt_refreshSecret = ''rs'',
      jwt_accessExpiry = ''15m'', jwt_refreshExpiry = ''7d''\<rparr>"

definition example_env :: env where
  "example_env =
     \<lparr>env_now = 5000, env_uuid = ''fam-9'', env_rowId = ''rt-9'',
      env_tokenCreate_rejects = False, env_tokenUpdate_rejects = False,
      env_userUpdate_rejects = False\<rparr>"

definition example_bcrypt :: "string \<Rightarrow> string \<Rightarrow> bool" where
  "example_bcrypt password hash = (hash = ''bcrypt('' @ password @ '')'')"

section \<open>Facts about the permission flattening\<close>

lemma set_fold_js_set_add: "set (fold js_set_add xs acc) = set xs \<union> set acc"
  by (induction xs arbitrary: acc) (auto simp: js_set_add_def)

lemma distinct_fold_js_set_add: "distinct acc \<Longrightarrow> distinct (fold js_set_add xs acc)"
  by (induction xs arbitrary: acc) (auto simp: js_set_add_def)

lemma set_js_new_Set: "set (js_new_Set xs) = set xs"
  by (simp add: js_new_Set_def set_fold_js_set_add)

lemma distinct_js_new_Set: "distinct (js_new_Set xs)"
  by (simp add: js_new_Set_def distinct_fold_js_set_add)

lemma set_map_filter_eq: "set (List.map_filter f xs) = {y. \<exists>x \<in> set xs. f x = Some y}"
  by (induction xs) (auto simp: List.map_filter_simps split: option.splits)

lemma set_role_actions_None: "snd ur = None \<Longrightarrow> set (role_actions ur) = {}"
  by (simp add: role_actions_def)

lemma set_role_actions_Some:
  "snd ur = Some (r, rps) \<Longrightarrow>
   set (role_actions ur) = {perm_action p | rp p. (rp, Some p) \<in> set rps \<and> perm_isActive p}"
proof (intro set_eqI iffI)
  fix a
  assume s: "snd ur = Some (r, rps)" and "a \<in> set (role_actions ur)"
  then obtain x where x: "x \<in> set rps" "case snd x of None \<Rightarrow> False | Some p \<Rightarrow> perm_isActive p"
    "map_option perm_action (snd x) = Some a"
    by (auto simp: role_actions_def set_map_filter_eq)
  obtain rp po where xp: "x = (rp, po)" by (cases x)
  from x(2,3) xp obtain p where "po = Some p" "perm_isActive p" "a = perm_action p"
    by (cases po) auto
  with x(1) xp show "a \<in> {perm_action p | rp p. (rp, Some p) \<in> set rps \<and> perm_isActive p}"
    by blast
next
  fix a
  assume s: "snd ur = Some (r, rps)"
    and "a \<in> {perm_action p | rp p. (rp, Some p) \<in> set rps \<and> perm_isActive p}"
  then obtain rp p where m: "(rp, Some p) \<in> set rps" and p: "perm_isActive p" and a: "a = perm_action p"
    by blast
  have "\<exists>x \<in> set (filter (\<lambda>rp. case snd rp of None \<Rightarrow> False | Some p \<Rightarrow> perm_isActive p) rps).
          map_option perm_action (snd x) = Some a"
    using m p a by (intro bexI [of _ "(rp, Some p)"]) simp_all
  with s show "a \<in> set (role_actions ur)"
    by (simp add: role_actions_def set_map_filter_eq)
qed

lemma userRole_findMany_Some:
  "(ur, Some (r, rps)) \<in> set (userRole_findMany d userId) \<longleftrightarrow>
     ur \<in> set (userRoles d) \<and> ur_userId ur = userId \<and>
     find (\<lambda>r. role_id r = ur_roleId ur) (roles d) = Some r \<and>
     rps = map (\<lambda>rp. (rp, find (\<lambda>p. perm_id p = rp_permissionId rp) (permissions d)))
             (filter (\<lambda>rp. rp_roleId rp = role_id r) (rolePermissions d))"
  by (cases "find (\<lambda>r. role_id r = ur_roleId ur) (roles d)")
     (auto simp: userRole_findMany_def)

lemma set_flatten_permissions:
  "set (flatten_permissions (userRole_findMany d userId)) = spec_granted_actions d userId"
proof (intro set_eqI iffI)
  fix a
  assume "a \<in> set (flatten_permissions (userRole_findMany d userId))"
  then obtain ur ro where m: "(ur, ro) \<in> set (userRole_findMany d userId)"
    and act: "case ro of None \<Rightarrow> False | Some (r, _) \<Rightarrow> role_isActive r"
    and a: "a \<in> set (role_actions (ur, ro))"
    by (auto simp: flatten_permissions_def set_js_new_Set)
  from act obtain r rps where ro: "ro = Some (r, rps)" and r: "role_isActive r"
    by (cases ro) auto
  from m ro have ur: "ur \<in> set (userRoles d)" "ur_userId ur = userId"
    and fr: "find (\<lambda>r. role_id r = ur_roleId ur) (roles d) = Some r"
    and rps: "rps = map (\<lambda>rp. (rp, find (\<lambda>p. perm_id p = rp_permissionId rp) (permissions d)))
                        (filter (\<lambda>rp. rp_roleId rp = role_id r) (rolePermissions d))"
    by (auto simp: userRole_findMany_Some)
  from a ro obtain rp p where "(rp, Some p) \<in> set rps" "perm_isActive p" "a = perm_action p"
    using set_role_actions_Some [of "(ur, ro)" r rps] by auto
  with rps have "rp \<in> set (rolePermissions d)" "rp_roleId rp = role_id r"
    "find (\<lambda>p. perm_id p = rp_permissionId rp) (permissions d) = Some p"
    by auto
  with ur fr r \<open>perm_isActive p\<close> \<open>a = perm_action p\<close>
  show "a \<in> spec_granted_actions d userId"
    unfolding spec_granted_actions_def by blast
next
  fix a
  assume "a \<in> spec_granted_actions d userId"
  then obtain ur r rp p where ur: "ur \<in> set (userRoles d)" "ur_userId ur = userId"
    and fr: "find (\<lambda>r. role_id r = ur_roleId ur) (roles d) = Some r" and r: "role_isActive r"
    and rp: "rp \<in> set (rolePermissions d)" "rp_roleId rp = role_id r"
    and fp: "find (\<lambda>p. perm_id p = rp_permissionId rp) (permissions d) = Some p"
    and p: "perm_isActive p" and a: "a = perm_action p"
    unfolding spec_granted_actions_def by blast
  define rps where "rps = map (\<lambda>rp. (rp, find (\<lambda>p. perm_id p = rp_permissionId rp) (permissions d)))
                        (filter (\<lambda>rp. rp_roleId rp = role_id r) (rolePermissions d))"
  have m: "(ur, Some (r, rps)) \<in> set (userRole_findMany d userId)"
    using ur fr by (simp add: userRole_findMany_Some rps_def)
  have "(rp, Some p) \<in> set rps"
    using rp fp by (auto simp: rps_def)
  then have "a \<in> set (role_actions (ur, Some (r, rps)))"
    using p a set_role_actions_Some [of "(ur, Some (r, rps))" r rps] by auto
  with m r show "a \<in> set (flatten_permissions (userRole_findMany d userId))"
    by (force simp: flatten_permissions_def set_js_new_Set)
qed

lemma distinct_flatten_permissions: "distinct (flatten_permissions urs)"
  by (simp add: flatten_permissions_def distinct_js_new_Set)

section \<open>The authorization middleware\<close>

text \<open>The middleware on a cache miss, on a cache hit, and its verdict.\<close>

lemma authorize_miss:
  assumes "cache_get C c (''permissions:'' @ ru_id u @ '':'' @ ru_organizationId u) = None"
  shows "authorize req C c d u =
           \<lparr>ar_next = (if list_ex (\<lambda>perm. perm \<in> set (flatten_permissions (userRole_findMany d (ru_id u)))) req
                        then None else Some (ForbiddenError ForbiddenError_default)),
            ar_userPermissions = CList (flatten_permissions (userRole_findMany d (ru_id u))),
            ar_cache = cache_set C c (''permissions:'' @ ru_id u @ '':'' @ ru_organizationId u)
                         (CList (flatten_permissions (userRole_findMany d (ru_id u)))) 300\<rparr>"
  using assms by (simp add: authorize_def Let_def permissionsTTL_def)

lemma authorize_hit:
  assumes "cache_get C c (''permissions:'' @ ru_id u @ '':'' @ ru_organizationId u) = Some (CList ps)"
  shows "authorize req C c d u =
           \<lparr>ar_next = (if list_ex (\<lambda>perm. perm \<in> set ps) req
                        then None else Some (ForbiddenError ForbiddenError_default)),
            ar_userPermissions = CList ps, ar_cache = c\<rparr>"
  using assms by (simp add: authorize_def Let_def)

lemmas authorize_eval =
  authorize_def userRole_findMany_def flatten_permissions_def role_actions_def
  js_new_Set_def js_set_add_def List.map_filter_def permissionsTTL_def
  ForbiddenError_def ForbiddenError_default_def Let_def

lemma example_flatten:
  "flatten_permissions (userRole_findMany example_db ''u-1'') = [''USER_UPDATE'', ''USER_READ'', ''DASHBOARD_READ'']"
  by (simp add: authorize_eval example_db_def)



lemma example_kv_hit:
  "cache_get kv_cache [(''permissions:u-1:o-1'', CList [''AUDIT_READ''], 120)]
     (''permissions:'' @ ru_id example_user @ '':'' @ ru_organizationId example_user) =
   Some (CList [''AUDIT_READ''])"
  by (simp add: kv_cache_def example_user_def)

lemma example_kv_miss:
  "cache_get kv_cache [] (''permissions:'' @ ru_id example_user @ '':'' @ ru_organizationId example_user) = None"
  by (simp add: kv_cache_def)

lemma authorize_false:
  assumes "cache_get C c (''permissions:'' @ ru_id u @ '':'' @ ru_organizationId u) = Some (CBool False)"
  shows "authorize req C c d u =
           \<lparr>ar_next = (if list_ex (\<lambda>perm. perm \<in> set (flatten_permissions (userRole_findMany d (ru_id u)))) req
                        then None else Some (ForbiddenError ForbiddenError_default)),
            ar_userPermissions = CList (flatten_permissions (userRole_findMany d (ru_id u))),
            ar_cache = cache_set C c (''permissions:'' @ ru_id u @ '':'' @ ru_organizationId u)
                         (CList (flatten_permissions (userRole_findMany d (ru_id u)))) 300\<rparr>"
  using assms by (simp add: authorize_def Let_def permissionsTTL_def)

lemma example_granted:
  "spec_granted_actions example_db ''u-1'' = set [''USER_UPDATE'', ''USER_READ'', ''DASHBOARD_READ'']"
  unfolding set_flatten_permissions [symmetric] by (simp only: example_flatten)

lemma example_flatten_none: "flatten_permissions (userRole_findMany example_db ''u-2'') = []"
  by (simp add: authorize_eval example_db_def)

lemma example_granted_none: "spec_granted_actions example_db ''u-2'' = {}"
  unfolding set_flatten_permissions [symmetric] by (simp only: example_flatten_none set_simps)

text \<open>
  C4. For an authenticated user and a list of required permission strings, the
  middleware lets the request through exactly when at least one required permission is
  in the user's resolved permission set, and passes Forbidden otherwise. The resolved
  set is the cached list on a cache hit; on a miss (no entry, or a cached \<open>false\<close>)
  it is the set of action strings of the active permissions of the user's active roles
  in the store. In particular a user whose resolved set is empty is denied, whatever is
  required. In both cases the resolved set is what the middleware attaches to the
  request.
\<close>

theorem authorize_any_of:
  "(cache_get C c (''permissions:'' @ ru_id u @ '':'' @ ru_organizationId u) = Some (CList ps) \<longrightarrow>
      ar_next (authorize req C c d u) =
        (if \<exists>perm \<in> set req. perm \<in> set ps then None else Some (ForbiddenError ForbiddenError_default)) \<and>
      ar_userPermissions (authorize req C c d u) = CList ps) \<and>
   (cache_get C c (''permissions:'' @ ru_id u @ '':'' @ ru_organizationId u) = None \<or>
    cache_get C c (''permissions:'' @ ru_id u @ '':'' @ ru_organizationId u) = Some (CBool False) \<longrightarrow>
      ar_next (authorize req C c d u) =
        (if \<exists>perm \<in> set req. perm \<in> spec_granted_actions d (ru_id u) then None else Some (ForbiddenError ForbiddenError_default)) \<and>
      (\<exists>ps. ar_userPermissions (authorize req C c d u) = CList ps \<and>
            set ps = spec_granted_actions d (ru_id u))) \<and>
   (cache_get C c (''permissions:'' @ ru_id u @ '':'' @ ru_organizationId u) = Some (CList []) \<longrightarrow>
      ar_next (authorize req C c d u) = Some (ForbiddenError ForbiddenError_default)) \<and>
   ((cache_get C c (''permissions:'' @ ru_id u @ '':'' @ ru_organizationId u) = None \<or>
     cache_get C c (''permissions:'' @ ru_id u @ '':'' @ ru_organizationId u) = Some (CBool False)) \<and>
    spec_granted_actions d (ru_id u) = {} \<longrightarrow>
      ar_next (authorize req C c d u) = Some (ForbiddenError ForbiddenError_default))"
proof -
  let ?loaded = "flatten_permissions (userRole_findMany d (ru_id u))"
  have hit: "ar_next (authorize req C c d u) =
        (if \<exists>perm \<in> set req. perm \<in> set ps' then None else Some (ForbiddenError ForbiddenError_default)) \<and>
      ar_userPermissions (authorize req C c d u) = CList ps'"
    if "cache_get C c (''permissions:'' @ ru_id u @ '':'' @ ru_organizationId u) = Some (CList ps')" for ps'
    unfolding authorize_hit [OF that] by (simp add: list_ex_iff)
  have miss: "ar_next (authorize req C c d u) =
        (if \<exists>perm \<in> set req. perm \<in> spec_granted_actions d (ru_id u) then None else Some (ForbiddenError ForbiddenError_default)) \<and>
      (\<exists>ps. ar_userPermissions (authorize req C c d u) = CList ps \<and>
            set ps = spec_granted_actions d (ru_id u))"
    if m: "cache_get C c (''permissions:'' @ ru_id u @ '':'' @ ru_organizationId u) = None \<or>
           cache_get C c (''permissions:'' @ ru_id u @ '':'' @ ru_organizationId u) = Some (CBool False)"
  proof -
    from m have eq: "authorize req C c d u =
           \<lparr>ar_next = (if list_ex (\<lambda>perm. perm \<in> set ?loaded) req
                        then None else Some (ForbiddenError ForbiddenError_default)),
            ar_userPermissions = CList ?loaded,
            ar_cache = cache_set C c (''permissions:'' @ ru_id u @ '':'' @ ru_organizationId u) (CList ?loaded) 300\<rparr>"
    proof
      assume "cache_get C c (''permissions:'' @ ru_id u @ '':'' @ ru_organizationId u) = None"
      then show ?thesis by (rule authorize_miss)
    next
      assume "cache_get C c (''permissions:'' @ ru_id u @ '':'' @ ru_organizationId u) = Some (CBool False)"
      then show ?thesis by (rule authorize_false)
    qed
    have n: "ar_next (authorize req C c d u) =
        (if \<exists>perm \<in> set req. perm \<in> spec_granted_actions d (ru_id u) then None else Some (ForbiddenError ForbiddenError_default))"
      unfolding eq set_flatten_permissions [symmetric] by (simp add: list_ex_iff)
    have a: "ar_userPermissions (authorize req C c d u) = CList ?loaded \<and>
        set ?loaded = spec_granted_actions d (ru_id u)"
      unfolding eq by (simp add: set_flatten_permissions)
    then have "\<exists>ps. ar_userPermissions (authorize req C c d u) = CList ps \<and>
            set ps = spec_granted_actions d (ru_id u)"
      by (rule exI)
    with n show ?thesis by (rule conjI)
  qed
  show ?thesis
  proof (intro conjI impI)
    assume h: "cache_get C c (''permissions:'' @ ru_id u @ '':'' @ ru_organizationId u) = Some (CList ps)"
    from hit [OF h] show "ar_next (authorize req C c d u) =
        (if \<exists>perm \<in> set req. perm \<in> set ps then None else Some (ForbiddenError ForbiddenError_default))"
      by (rule conjunct1)
    from hit [OF h] show "ar_userPermissions (authorize req C c d u) = CList ps"
      by (rule conjunct2)
  next
    assume m: "cache_get C c (''permissions:'' @ ru_id u @ '':'' @ ru_organizationId u) = None \<or>
           cache_get C c (''permissions:'' @ ru_id u @ '':'' @ ru_organizationId u) = Some (CBool False)"
    from miss [OF m] show "ar_next (authorize req C c d u) =
        (if \<exists>perm \<in> set req. perm \<in> spec_granted_actions d (ru_id u) then None else Some (ForbiddenError ForbiddenError_default))"
      by (rule conjunct1)
    from miss [OF m] show "\<exists>ps. ar_userPermissions (authorize req C c d u) = CList ps \<and>
            set ps = spec_granted_actions d (ru_id u)"
      by (rule conjunct2)
  next
    assume h: "cache_get C c (''permissions:'' @ ru_id u @ '':'' @ ru_organizationId u) = Some (CList [])"
    from hit [OF h] show "ar_next (authorize req C c d u) = Some (ForbiddenError ForbiddenError_default)"
      by simp
  next
    assume h: "(cache_get C c (''permissions:'' @ ru_id u @ '':'' @ ru_organizationId u) = None \<or>
           cache_get C c (''permissions:'' @ ru_id u @ '':'' @ ru_organizationId u) = Some (CBool False)) \<and>
          spec_granted_actions d (ru_id u) = {}"
    then have m: "cache_get C c (''permissions:'' @ ru_id u @ '':'' @ ru_organizationId u) = None \<or>
           cache_get C c (''permissions:'' @ ru_id u @ '':'' @ ru_organizationId u) = Some (CBool False)"
      and e: "spec_granted_actions d (ru_id u) = {}"
      by (rule conjunct1, rule conjunct2)
    from miss [OF m, THEN conjunct1] show "ar_next (authorize req C c d u) = Some (ForbiddenError ForbiddenError_default)"
      unfolding e by simp
  qed
qed

theorem authorize_any_of_witness:
  "ar_next (authorize [''AUDIT_READ''] kv_cache [(''permissions:u-1:o-1'', CList [''AUDIT_READ''], 120)] example_db
        example_user) = None \<and>
   ar_next (authorize [''USER_READ''] kv_cache [(''permissions:u-1:o-1'', CList [''AUDIT_READ''], 120)] example_db
        example_user) = Some (ForbiddenError ForbiddenError_default) \<and>
   ar_next (authorize [''USER_READ''] cache () example_db
        example_user) = None \<and>
   ar_next (authorize [''USER_DELETE''] cache () example_db
        example_user) = Some (ForbiddenError ForbiddenError_default) \<and>
   ar_next (authorize [''USER_READ''] kv_cache [(''permissions:u-1:o-1'', CBool False, 120)] example_db
        example_user) = None \<and>
   ar_next (authorize [''USER_DELETE''] kv_cache [(''permissions:u-2:o-1'', CList [], 120)] example_db
        \<lparr>ru_id = ''u-2'', ru_email = ''former@acme.com'', ru_organizationId = ''o-1''\<rparr>) = Some (ForbiddenError ForbiddenError_default) \<and>
   ar_next (authorize [''USER_READ''] cache () example_db
        \<lparr>ru_id = ''u-2'', ru_email = ''former@acme.com'', ru_organizationId = ''o-1''\<rparr>) = Some (ForbiddenError ForbiddenError_default)"
proof -
  have k2: "ru_id \<lparr>ru_id = ''u-2'', ru_email = ''former@acme.com'', ru_organizationId = ''o-1''\<rparr> = ''u-2''" by simp
  have h1: "cache_get kv_cache [(''permissions:u-1:o-1'', CList [''AUDIT_READ''], 120)]
      (''permissions:'' @ ru_id example_user @ '':'' @ ru_organizationId example_user) =
      Some (CList [''AUDIT_READ''])"
    by (simp add: kv_cache_def example_user_def)
  have h2: "cache_get kv_cache [(''permissions:u-2:o-1'', CList [], 120)]
      (''permissions:'' @ ru_id \<lparr>ru_id = ''u-2'', ru_email = ''former@acme.com'', ru_organizationId = ''o-1''\<rparr> @ '':'' @ ru_organizationId \<lparr>ru_id = ''u-2'', ru_email = ''former@acme.com'', ru_organizationId = ''o-1''\<rparr>) =
      Some (CList [])"
    by (simp add: kv_cache_def)
  have m1: "cache_get cache ()
      (''permissions:'' @ ru_id example_user @ '':'' @ ru_organizationId example_user) = None \<or>
      cache_get cache ()
      (''permissions:'' @ ru_id example_user @ '':'' @ ru_organizationId example_user) = Some (CBool False)"
    by (simp add: cache_def)
  have m2: "cache_get cache ()
      (''permissions:'' @ ru_id \<lparr>ru_id = ''u-2'', ru_email = ''former@acme.com'', ru_organizationId = ''o-1''\<rparr> @ '':'' @ ru_organizationId \<lparr>ru_id = ''u-2'', ru_email = ''former@acme.com'', ru_organizationId = ''o-1''\<rparr>) = None \<or>
      cache_get cache ()
      (''permissions:'' @ ru_id \<lparr>ru_id = ''u-2'', ru_email = ''former@acme.com'', ru_organizationId = ''o-1''\<rparr> @ '':'' @ ru_organizationId \<lparr>ru_id = ''u-2'', ru_email = ''former@acme.com'', ru_organizationId = ''o-1''\<rparr>) = Some (CBool False)"
    by (simp add: cache_def)
  have m3: "cache_get kv_cache [(''permissions:u-1:o-1'', CBool False, 120)]
      (''permissions:'' @ ru_id example_user @ '':'' @ ru_organizationId example_user) = None \<or>
      cache_get kv_cache [(''permissions:u-1:o-1'', CBool False, 120)]
      (''permissions:'' @ ru_id example_user @ '':'' @ ru_organizationId example_user) = Some (CBool False)"
    by (simp add: kv_cache_def example_user_def)
  have g1: "spec_granted_actions example_db (ru_id example_user) =
      set [''USER_UPDATE'', ''USER_READ'', ''DASHBOARD_READ'']"
    by (simp only: example_user_def req_user.simps example_granted)
  have g2: "spec_granted_actions example_db (ru_id \<lparr>ru_id = ''u-2'', ru_email = ''former@acme.com'', ru_organizationId = ''o-1''\<rparr>) = {}"
    unfolding k2 by (rule example_granted_none)
  note hit = authorize_any_of [THEN conjunct1, rule_format, THEN conjunct1]
  note miss = authorize_any_of [THEN conjunct2, THEN conjunct1, rule_format, THEN conjunct1]
  note hit_empty = authorize_any_of [THEN conjunct2, THEN conjunct2, THEN conjunct1, rule_format]
  note miss_empty = authorize_any_of [THEN conjunct2, THEN conjunct2, THEN conjunct2, rule_format]
  have a: "ar_next (authorize [''AUDIT_READ''] kv_cache [(''permissions:u-1:o-1'', CList [''AUDIT_READ''], 120)] example_db
        example_user) = None"
    unfolding hit [OF h1] by simp
  have b: "ar_next (authorize [''USER_READ''] kv_cache [(''permissions:u-1:o-1'', CList [''AUDIT_READ''], 120)] example_db
        example_user) = Some (ForbiddenError ForbiddenError_default)"
    unfolding hit [OF h1] by simp
  have c: "ar_next (authorize [''USER_READ''] cache () example_db
        example_user) = None"
    unfolding miss [OF m1] g1 by simp
  have d: "ar_next (authorize [''USER_DELETE''] cache () example_db
        example_user) = Some (ForbiddenError ForbiddenError_default)"
    unfolding miss [OF m1] g1 by simp
  have e: "ar_next (authorize [''USER_READ''] kv_cache [(''permissions:u-1:o-1'', CBool False, 120)] example_db
        example_user) = None"
    unfolding miss [OF m3] g1 by simp
  have f: "ar_next (authorize [''USER_DELETE''] kv_cache [(''permissions:u-2:o-1'', CList [], 120)] example_db
        \<lparr>ru_id = ''u-2'', ru_email = ''former@acme.com'', ru_organizationId = ''o-1''\<rparr>) = Some (ForbiddenError ForbiddenError_default)"
    by (rule hit_empty [OF h2])
  have g: "ar_next (authorize [''USER_READ''] cache () example_db
        \<lparr>ru_id = ''u-2'', ru_email = ''former@acme.com'', ru_organizationId = ''o-1''\<rparr>) = Some (ForbiddenError ForbiddenError_default)"
    by (rule miss_empty [OF conjI, OF m2 g2])
  from a b c d e f g show ?thesis by (intro conjI)
qed

text \<open>
  C5. Permission resolution is cache-first. On a hit the cached set is the resolved set,
  the cache is left as it is and the outcome does not depend on the relational store
  (any two stores give the same result). On a miss the resolved set is a duplicate-free
  list whose elements are exactly the action strings of the active permissions of the
  user's active roles, and that list is written to the cache under the key of
  (userId, organizationId) with a TTL of 300 seconds.
\<close>

theorem resolve_cache_first:
  "(cache_get C c (''permissions:'' @ ru_id u @ '':'' @ ru_organizationId u) = Some (CList ps) \<longrightarrow>
      ar_userPermissions (authorize req C c d u) = CList ps \<and>
      ar_cache (authorize req C c d u) = c \<and>
      authorize req C c d' u = authorize req C c d u) \<and>
   (cache_get C c (''permissions:'' @ ru_id u @ '':'' @ ru_organizationId u) = None \<longrightarrow>
      (\<exists>perms. ar_userPermissions (authorize req C c d u) = CList perms \<and>
         distinct perms \<and> set perms = spec_granted_actions d (ru_id u) \<and>
         ar_cache (authorize req C c d u) =
           cache_set C c (''permissions:'' @ ru_id u @ '':'' @ ru_organizationId u) (CList perms) 300))"
proof (intro conjI impI)
  assume h: "cache_get C c (''permissions:'' @ ru_id u @ '':'' @ ru_organizationId u) = Some (CList ps)"
  show "ar_userPermissions (authorize req C c d u) = CList ps"
    by (simp add: authorize_hit [OF h])
  show "ar_cache (authorize req C c d u) = c"
    by (simp add: authorize_hit [OF h])
  show "authorize req C c d' u = authorize req C c d u"
    by (simp only: authorize_hit [OF h])
next
  assume m: "cache_get C c (''permissions:'' @ ru_id u @ '':'' @ ru_organizationId u) = None"
  let ?perms = "flatten_permissions (userRole_findMany d (ru_id u))"
  have "ar_userPermissions (authorize req C c d u) = CList ?perms"
    by (simp add: authorize_miss [OF m])
  moreover have "distinct ?perms"
    by (rule distinct_flatten_permissions)
  moreover have "set ?perms = spec_granted_actions d (ru_id u)"
    by (rule set_flatten_permissions)
  moreover have "ar_cache (authorize req C c d u) =
      cache_set C c (''permissions:'' @ ru_id u @ '':'' @ ru_organizationId u) (CList ?perms) 300"
    by (simp add: authorize_miss [OF m])
  ultimately show "\<exists>perms. ar_userPermissions (authorize req C c d u) = CList perms \<and>
         distinct perms \<and> set perms = spec_granted_actions d (ru_id u) \<and>
         ar_cache (authorize req C c d u) =
           cache_set C c (''permissions:'' @ ru_id u @ '':'' @ ru_organizationId u) (CList perms) 300"
    by blast
qed

theorem resolve_cache_first_witness:
  "ar_userPermissions
     (authorize [''AUDIT_READ''] kv_cache [(''permissions:u-1:o-1'', CList [''AUDIT_READ''], 120)]
        example_db example_user) = CList [''AUDIT_READ''] \<and>
   ar_cache
     (authorize [''AUDIT_READ''] kv_cache [(''permissions:u-1:o-1'', CList [''AUDIT_READ''], 120)]
        example_db example_user) = [(''permissions:u-1:o-1'', CList [''AUDIT_READ''], 120)] \<and>
   ar_userPermissions (authorize [''AUDIT_READ''] kv_cache [] example_db example_user) =
     CList [''USER_UPDATE'', ''USER_READ'', ''DASHBOARD_READ''] \<and>
   spec_granted_actions example_db ''u-1'' = {''USER_UPDATE'', ''USER_READ'', ''DASHBOARD_READ''} \<and>
   ar_cache (authorize [''AUDIT_READ''] kv_cache [] example_db example_user) =
     [(''permissions:u-1:o-1'', CList [''USER_UPDATE'', ''USER_READ'', ''DASHBOARD_READ''], 300)]"
proof -
  note hit = resolve_cache_first [THEN conjunct1, rule_format, OF example_kv_hit]
  note miss = resolve_cache_first [THEN conjunct2, rule_format, OF example_kv_miss]
  have e: "ar_userPermissions (authorize [''AUDIT_READ''] kv_cache [] example_db example_user) =
     CList [''USER_UPDATE'', ''USER_READ'', ''DASHBOARD_READ'']"
    unfolding authorize_miss [OF example_kv_miss]
    by (simp only: example_user_def req_user.simps example_flatten authorize_result.simps)
  from miss [of "[''AUDIT_READ'']" example_db] obtain perms where
    p: "ar_userPermissions (authorize [''AUDIT_READ''] kv_cache [] example_db example_user) = CList perms"
    and s: "set perms = spec_granted_actions example_db (ru_id example_user)"
    and c: "ar_cache (authorize [''AUDIT_READ''] kv_cache [] example_db example_user) =
           cache_set kv_cache [] (''permissions:'' @ ru_id example_user @ '':'' @ ru_organizationId example_user) (CList perms) 300"
    by blast
  from p e have perms: "perms = [''USER_UPDATE'', ''USER_READ'', ''DASHBOARD_READ'']" by simp
  have s': "spec_granted_actions example_db ''u-1'' = {''USER_UPDATE'', ''USER_READ'', ''DASHBOARD_READ''}"
    using s unfolding perms by (simp add: example_user_def)
  have c': "ar_cache (authorize [''AUDIT_READ''] kv_cache [] example_db example_user) =
     [(''permissions:u-1:o-1'', CList [''USER_UPDATE'', ''USER_READ'', ''DASHBOARD_READ''], 300)]"
    unfolding c perms by (simp add: kv_cache_def example_user_def)
  from hit [of "[''AUDIT_READ'']" example_db] e s' c' show ?thesis by (intro conjI) simp_all
qed

text \<open>
  C10. The permission set computed from the relational store does not depend on the
  organization id: two cache-miss resolutions for the same user id under two
  organization ids, over the same store, attach the same set (the flattening of the
  query by user id) and reach the same verdict. The organization id only forms the
  cache key.
\<close>

theorem resolve_ignores_organization:
  assumes "cache_get C c (''permissions:'' @ userId @ '':'' @ orgA) = None"
    and "cache_get C' c' (''permissions:'' @ userId @ '':'' @ orgB) = None"
  shows "ar_userPermissions
           (authorize req C c d \<lparr>ru_id = userId, ru_email = email, ru_organizationId = orgA\<rparr>) =
         ar_userPermissions
           (authorize req C' c' d \<lparr>ru_id = userId, ru_email = email', ru_organizationId = orgB\<rparr>) \<and>
         ar_userPermissions
           (authorize req C c d \<lparr>ru_id = userId, ru_email = email, ru_organizationId = orgA\<rparr>) =
         CList (flatten_permissions (userRole_findMany d userId)) \<and>
         ar_next
           (authorize req C c d \<lparr>ru_id = userId, ru_email = email, ru_organizationId = orgA\<rparr>) =
         ar_next
           (authorize req C' c' d \<lparr>ru_id = userId, ru_email = email', ru_organizationId = orgB\<rparr>)"
proof -
  have a: "cache_get C c (''permissions:'' @ ru_id \<lparr>ru_id = userId, ru_email = email, ru_organizationId = orgA\<rparr>
             @ '':'' @ ru_organizationId \<lparr>ru_id = userId, ru_email = email, ru_organizationId = orgA\<rparr>) = None"
    using assms(1) by simp
  have b: "cache_get C' c' (''permissions:'' @ ru_id \<lparr>ru_id = userId, ru_email = email', ru_organizationId = orgB\<rparr>
             @ '':'' @ ru_organizationId \<lparr>ru_id = userId, ru_email = email', ru_organizationId = orgB\<rparr>) = None"
    using assms(2) by simp
  show ?thesis
    by (simp add: authorize_miss [OF a] authorize_miss [OF b])
qed

theorem resolve_ignores_organization_witness:
  "cache_get kv_cache [] (''permissions:'' @ ''u-1'' @ '':'' @ ''o-1'') = None \<and>
   cache_get kv_cache [] (''permissions:'' @ ''u-1'' @ '':'' @ ''o-2'') = None \<and>
   ar_userPermissions
     (authorize [''USER_READ''] kv_cache [] example_db
        \<lparr>ru_id = ''u-1'', ru_email = ''manager@acme.com'', ru_organizationId = ''o-2''\<rparr>) =
   CList [''USER_UPDATE'', ''USER_READ'', ''DASHBOARD_READ'']"
proof -
  let ?A = "ar_userPermissions
     (authorize [''USER_READ''] kv_cache [] example_db
        \<lparr>ru_id = ''u-1'', ru_email = ''manager@acme.com'', ru_organizationId = ''o-1''\<rparr>)"
  let ?B = "ar_userPermissions
     (authorize [''USER_READ''] kv_cache [] example_db
        \<lparr>ru_id = ''u-1'', ru_email = ''manager@acme.com'', ru_organizationId = ''o-2''\<rparr>)"
  have a: "cache_get kv_cache [] (''permissions:'' @ ''u-1'' @ '':'' @ ''o-1'') = None"
    by (simp add: kv_cache_def)
  have b: "cache_get kv_cache [] (''permissions:'' @ ''u-1'' @ '':'' @ ''o-2'') = None"
    by (simp add: kv_cache_def)
  note r = resolve_ignores_organization [OF a b, of "[''USER_READ'']" example_db
      "''manager@acme.com''" "''manager@acme.com''"]
  have e1: "?A = ?B" using r by (rule conjunct1)
  have e2: "?A = CList (flatten_permissions (userRole_findMany example_db ''u-1''))"
    using r by (rule conjunct1 [OF conjunct2])
  have "?B = CList (flatten_permissions (userRole_findMany example_db ''u-1''))"
    using e1 e2 by (rule trans [OF sym])
  then have "?B = CList [''USER_UPDATE'', ''USER_READ'', ''DASHBOARD_READ'']"
    by (simp only: example_flatten)
  with a b show ?thesis by (intro conjI)
qed

section \<open>Refresh: replay detection\<close>

lemma refresh_invalid:
  assumes "jwt_verify J tok (jwt_refreshSecret cfg) (env_now e) = None"
  shows "refresh J cfg e d tok = (Inl (UnauthorizedError ''Invalid refresh token''), d)"
  using assms by (simp add: refresh_def)

lemma refresh_replay:
  assumes "jwt_verify J tok (jwt_refreshSecret cfg) (env_now e) = Some decoded"
    and "find (\<lambda>t. rt_token t = tok) (refreshTokens d) = Some st"
    and "rt_isRevoked st"
  shows "refresh J cfg e d tok =
           (Inl (UnauthorizedError ''Token reuse detected -- all sessions revoked''),
            d\<lparr>refreshTokens := refreshToken_updateMany_family (rt_family st) (refreshTokens d)\<rparr>)"
  using assms by (simp add: refresh_def)

lemma updateMany_family_length:
  "length (refreshToken_updateMany_family f rows) = length rows"
  by (simp add: refreshToken_updateMany_family_def)

lemma updateMany_family_nth:
  "i < length rows \<Longrightarrow>
   refreshToken_updateMany_family f rows ! i =
     (if rt_family (rows ! i) = f then (rows ! i)\<lparr>rt_isRevoked := True\<rparr> else rows ! i)"
  by (simp add: refreshToken_updateMany_family_def)

lemma updateMany_family_revoked:
  assumes "t \<in> set (refreshToken_updateMany_family f rows)" and "rt_family t = f"
  shows "rt_isRevoked t"
proof -
  from assms(1) obtain r where "r \<in> set rows"
    and t: "t = (if rt_family r = f then r\<lparr>rt_isRevoked := True\<rparr> else r)"
    unfolding refreshToken_updateMany_family_def set_map by (rule imageE)
  show ?thesis
  proof (cases "rt_family r = f")
    case True
    with t show ?thesis by simp
  next
    case False
    with t assms(2) show ?thesis by simp
  qed
qed

lemma example_verify_T0:
  "jwt_verify example_jwt ''rs:u-1:fam-1:i'' (jwt_refreshSecret example_config) (env_now example_env) =
  Some \<lparr>jwt_sub = ''u-1'', jwt_email = None, jwt_organizationId = ''o-1'',
        jwt_family = Some ''fam-1'', jwt_exp = Some 604801\<rparr>"
  by (simp add: example_jwt_def example_tokens_def example_config_def example_env_def)

lemma example_find_T0:
  "find (\<lambda>t. rt_token t = ''rs:u-1:fam-1:i'') (refreshTokens example_db) =
  Some \<lparr>rt_id = ''rt-0'', rt_token = ''rs:u-1:fam-1:i'', rt_userId = ''u-1'',
          rt_family = ''fam-1'', rt_expiresAt = 604801000, rt_isRevoked = True\<rparr>"
  by (simp add: example_db_def)

lemma example_rows:
  "refreshTokens example_db =
     [\<lparr>rt_id = ''rt-0'', rt_token = ''rs:u-1:fam-1:i'', rt_userId = ''u-1'',
       rt_family = ''fam-1'', rt_expiresAt = 604801000, rt_isRevoked = True\<rparr>,
      \<lparr>rt_id = ''rt-1'', rt_token = ''rs:u-1:fam-1:ii'', rt_userId = ''u-1'',
       rt_family = ''fam-1'', rt_expiresAt = 604802000, rt_isRevoked = False\<rparr>,
      \<lparr>rt_id = ''rt-2'', rt_token = ''rs:u-1:fam-2:i'', rt_userId = ''u-1'',
       rt_family = ''fam-2'', rt_expiresAt = 604801000, rt_isRevoked = False\<rparr>]"
  by (simp add: example_db_def)

lemma example_verify_T0_late:
  "jwt_verify example_jwt ''rs:u-1:fam-1:i'' (jwt_refreshSecret example_config)
     (env_now (example_env\<lparr>env_now := 604801000\<rparr>)) = None"
  by (simp add: example_jwt_def example_tokens_def example_config_def example_env_def)

text \<open>
  C1, as the code has it. For every presented refresh token that passes the verification
  of its signature and expiry claim and whose stored RefreshToken record is already
  revoked, \<open>refresh\<close> fails with Unauthorized (reuse detected), and in the store it
  leaves behind every row of that record's family is revoked; the rows of other
  families, the number of rows and the other tables are unchanged, so the revocation
  is in effect although no new pair was issued.
\<close>

theorem refresh_replay_revokes_family:
  assumes "jwt_verify J tok (jwt_refreshSecret cfg) (env_now e) = Some decoded"
    and "find (\<lambda>t. rt_token t = tok) (refreshTokens d) = Some st"
    and "rt_isRevoked st"
  shows "fst (refresh J cfg e d tok) =
           Inl (UnauthorizedError ''Token reuse detected -- all sessions revoked'') \<and>
         (\<forall>t \<in> set (refreshTokens (snd (refresh J cfg e d tok))).
            rt_family t = rt_family st \<longrightarrow> rt_isRevoked t) \<and>
         length (refreshTokens (snd (refresh J cfg e d tok))) = length (refreshTokens d) \<and>
         (\<forall>i < length (refreshTokens d).
            refreshTokens (snd (refresh J cfg e d tok)) ! i =
              (if rt_family (refreshTokens d ! i) = rt_family st
               then (refreshTokens d ! i)\<lparr>rt_isRevoked := True\<rparr> else refreshTokens d ! i)) \<and>
         snd (refresh J cfg e d tok) =
           d\<lparr>refreshTokens := refreshTokens (snd (refresh J cfg e d tok))\<rparr>"
proof -
  note r = refresh_replay [OF assms]
  have rows: "refreshTokens (snd (refresh J cfg e d tok)) =
      refreshToken_updateMany_family (rt_family st) (refreshTokens d)"
    by (simp add: r)
  show ?thesis
  proof (intro conjI ballI allI impI)
    show "fst (refresh J cfg e d tok) =
           Inl (UnauthorizedError ''Token reuse detected -- all sessions revoked'')"
      by (simp add: r)
  next
    fix t assume "t \<in> set (refreshTokens (snd (refresh J cfg e d tok)))" "rt_family t = rt_family st"
    then show "rt_isRevoked t"
      unfolding rows by (rule updateMany_family_revoked)
  next
    show "length (refreshTokens (snd (refresh J cfg e d tok))) = length (refreshTokens d)"
      unfolding rows by (rule updateMany_family_length)
  next
    fix i assume "i < length (refreshTokens d)"
    then show "refreshTokens (snd (refresh J cfg e d tok)) ! i =
              (if rt_family (refreshTokens d ! i) = rt_family st
               then (refreshTokens d ! i)\<lparr>rt_isRevoked := True\<rparr> else refreshTokens d ! i)"
      unfolding rows by (rule updateMany_family_nth)
  next
    show "snd (refresh J cfg e d tok) =
           d\<lparr>refreshTokens := refreshTokens (snd (refresh J cfg e d tok))\<rparr>"
      by (simp add: r)
  qed
qed

theorem refresh_replay_revokes_family_witness:
  "fst (refresh example_jwt example_config example_env example_db ''rs:u-1:fam-1:i'') =
     Inl (UnauthorizedError ''Token reuse detected -- all sessions revoked'') \<and>
   refreshTokens example_db ! 1 =
     \<lparr>rt_id = ''rt-1'', rt_token = ''rs:u-1:fam-1:ii'', rt_userId = ''u-1'',
      rt_family = ''fam-1'', rt_expiresAt = 604802000, rt_isRevoked = False\<rparr> \<and>
   refreshTokens (snd (refresh example_jwt example_config example_env example_db ''rs:u-1:fam-1:i'')) ! 1 =
     \<lparr>rt_id = ''rt-1'', rt_token = ''rs:u-1:fam-1:ii'', rt_userId = ''u-1'',
      rt_family = ''fam-1'', rt_expiresAt = 604802000, rt_isRevoked = True\<rparr> \<and>
   refreshTokens (snd (refresh example_jwt example_config example_env example_db ''rs:u-1:fam-1:i'')) ! 2 =
     refreshTokens example_db ! 2"
proof -
  have rv: "rt_isRevoked \<lparr>rt_id = ''rt-0'', rt_token = ''rs:u-1:fam-1:i'', rt_userId = ''u-1'',
          rt_family = ''fam-1'', rt_expiresAt = 604801000, rt_isRevoked = True\<rparr>"
    by simp
  note t = refresh_replay_revokes_family [OF example_verify_T0 example_find_T0 rv]
  from t have f: "fst (refresh example_jwt example_config example_env example_db ''rs:u-1:fam-1:i'') =
     Inl (UnauthorizedError ''Token reuse detected -- all sessions revoked'')"
    by (rule conjunct1)
  from t have n: "\<forall>i < length (refreshTokens example_db).
      refreshTokens (snd (refresh example_jwt example_config example_env example_db ''rs:u-1:fam-1:i'')) ! i =
        (if rt_family (refreshTokens example_db ! i) = ''fam-1''
         then (refreshTokens example_db ! i)\<lparr>rt_isRevoked := True\<rparr> else refreshTokens example_db ! i)"
    by simp
  have r1: "refreshTokens example_db ! 1 =
     \<lparr>rt_id = ''rt-1'', rt_token = ''rs:u-1:fam-1:ii'', rt_userId = ''u-1'',
      rt_family = ''fam-1'', rt_expiresAt = 604802000, rt_isRevoked = False\<rparr>"
    by (simp add: example_rows)
  have r2: "rt_family (refreshTokens example_db ! 2) = ''fam-2''"
    by (simp add: example_rows)
  have l: "length (refreshTokens example_db) = 3"
    by (simp add: example_rows)
  from n l have n1: "refreshTokens (snd (refresh example_jwt example_config example_env example_db ''rs:u-1:fam-1:i'')) ! 1 =
        (if rt_family (refreshTokens example_db ! 1) = ''fam-1''
         then (refreshTokens example_db ! 1)\<lparr>rt_isRevoked := True\<rparr> else refreshTokens example_db ! 1)"
    by simp
  from n l have n2: "refreshTokens (snd (refresh example_jwt example_config example_env example_db ''rs:u-1:fam-1:i'')) ! 2 =
        (if rt_family (refreshTokens example_db ! 2) = ''fam-1''
         then (refreshTokens example_db ! 2)\<lparr>rt_isRevoked := True\<rparr> else refreshTokens example_db ! 2)"
    by simp
  have c1: "refreshTokens (snd (refresh example_jwt example_config example_env example_db ''rs:u-1:fam-1:i'')) ! 1 =
     \<lparr>rt_id = ''rt-1'', rt_token = ''rs:u-1:fam-1:ii'', rt_userId = ''u-1'',
      rt_family = ''fam-1'', rt_expiresAt = 604802000, rt_isRevoked = True\<rparr>"
    unfolding n1 r1 by simp
  have c2: "refreshTokens (snd (refresh example_jwt example_config example_env example_db ''rs:u-1:fam-1:i'')) ! 2 =
     refreshTokens example_db ! 2"
    unfolding n2 r2 by simp
  from f r1 c1 c2 show ?thesis by (intro conjI)
qed

text \<open>
  C1 as stated does not hold for every presented token whose stored record is revoked:
  the verification of the token comes first. Here the stored record of the presented
  token is revoked, but its expiry claim has passed; \<open>refresh\<close> answers
  \<open>Invalid refresh token\<close> and leaves the store as it was, with the other token of
  the family still active.
\<close>

theorem refresh_replay_counterexample:
  "rt_token (refreshTokens example_db ! 0) = ''rs:u-1:fam-1:i'' \<and>
   rt_isRevoked (refreshTokens example_db ! 0) \<and>
   rt_family (refreshTokens example_db ! 0) = ''fam-1'' \<and>
   refresh example_jwt example_config (example_env\<lparr>env_now := 604801000\<rparr>) example_db
     ''rs:u-1:fam-1:i'' =
     (Inl (UnauthorizedError ''Invalid refresh token''), example_db) \<and>
   rt_family (refreshTokens example_db ! 1) = ''fam-1'' \<and>
   \<not> rt_isRevoked (refreshTokens example_db ! 1)"
  by (simp add: refresh_invalid [OF example_verify_T0_late] example_rows)

section \<open>Refresh: rotation\<close>

text \<open>The four ways a token generation can end.\<close>

lemma generateTokenPair_created:
  assumes "tokenFamily = (case family of None \<Rightarrow> env_uuid e
                      | Some f \<Rightarrow> if f = [] then env_uuid e else f)"
    and "jwt_sign J
        \<lparr>jwt_sub = usr_id usr, jwt_email = Some (usr_email usr),
         jwt_organizationId = organizationId, jwt_family = None, jwt_exp = None\<rparr>
        (jwt_accessSecret cfg) (jwt_accessExpiry cfg) (env_now e) = Inr accessToken"
    and "jwt_sign J
        \<lparr>jwt_sub = usr_id usr, jwt_email = None,
         jwt_organizationId = organizationId, jwt_family = Some tokenFamily, jwt_exp = None\<rparr>
        (jwt_refreshSecret cfg) (jwt_refreshExpiry cfg) (env_now e) = Inr refreshToken"
    and "expiryToDate (jwt_refreshExpiry cfg) (env_now e) = Some expiresAt"
    and "\<not> env_tokenCreate_rejects e"
  shows "generateTokenPair J cfg e d usr organizationId family =
     (Inr \<lparr>tp_accessToken = accessToken, tp_refreshToken = refreshToken\<rparr>,
      d\<lparr>refreshTokens := refreshTokens d @
         [\<lparr>rt_id = env_rowId e, rt_token = refreshToken, rt_userId = usr_id usr,
           rt_family = tokenFamily, rt_expiresAt = expiresAt, rt_isRevoked = False\<rparr>]\<rparr>)"
  using assms(2-5) unfolding generateTokenPair_def Let_def assms(1) by simp

lemma generateTokenPair_rejected:
  assumes "tokenFamily = (case family of None \<Rightarrow> env_uuid e
                      | Some f \<Rightarrow> if f = [] then env_uuid e else f)"
    and "jwt_sign J
        \<lparr>jwt_sub = usr_id usr, jwt_email = Some (usr_email usr),
         jwt_organizationId = organizationId, jwt_family = None, jwt_exp = None\<rparr>
        (jwt_accessSecret cfg) (jwt_accessExpiry cfg) (env_now e) = Inr accessToken"
    and "jwt_sign J
        \<lparr>jwt_sub = usr_id usr, jwt_email = None,
         jwt_organizationId = organizationId, jwt_family = Some tokenFamily, jwt_exp = None\<rparr>
        (jwt_refreshSecret cfg) (jwt_refreshExpiry cfg) (env_now e) = Inr refreshToken"
    and "expiryToDate (jwt_refreshExpiry cfg) (env_now e) = Some expiresAt"
    and "env_tokenCreate_rejects e"
  shows "generateTokenPair J cfg e d usr organizationId family = (Inl PrismaError, d)"
  using assms(2-5) unfolding generateTokenPair_def Let_def assms(1) by simp

lemma generateTokenPair_access_throws:
  assumes "jwt_sign J
        \<lparr>jwt_sub = usr_id usr, jwt_email = Some (usr_email usr),
         jwt_organizationId = organizationId, jwt_family = None, jwt_exp = None\<rparr>
        (jwt_accessSecret cfg) (jwt_accessExpiry cfg) (env_now e) = Inl err"
  shows "generateTokenPair J cfg e d usr organizationId family = (Inl err, d)"
  using assms unfolding generateTokenPair_def Let_def by simp

lemma generateTokenPair_refresh_throws:
  assumes "tokenFamily = (case family of None \<Rightarrow> env_uuid e
                      | Some f \<Rightarrow> if f = [] then env_uuid e else f)"
    and "jwt_sign J
        \<lparr>jwt_sub = usr_id usr, jwt_email = Some (usr_email usr),
         jwt_organizationId = organizationId, jwt_family = None, jwt_exp = None\<rparr>
        (jwt_accessSecret cfg) (jwt_accessExpiry cfg) (env_now e) = Inr accessToken"
    and "jwt_sign J
        \<lparr>jwt_sub = usr_id usr, jwt_email = None,
         jwt_organizationId = organizationId, jwt_family = Some tokenFamily, jwt_exp = None\<rparr>
        (jwt_refreshSecret cfg) (jwt_refreshExpiry cfg) (env_now e) = Inl err"
  shows "generateTokenPair J cfg e d usr organizationId family = (Inl err, d)"
  using assms(2,3) unfolding generateTokenPair_def Let_def assms(1) by simp

lemma refresh_rotate:
  assumes "jwt_verify J tok (jwt_refreshSecret cfg) (env_now e) = Some decoded"
    and "find (\<lambda>t. rt_token t = tok) (refreshTokens d) = Some st"
    and "\<not> rt_isRevoked st"
    and "\<not> rt_expiresAt st < env_now e"
    and "find (\<lambda>u. usr_id u = rt_userId st) (users d) = Some usr"
    and "usr_isActive usr"
  shows "refresh J cfg e d tok =
     (case fst (generateTokenPair J cfg e
             (if env_tokenUpdate_rejects e then d
              else d\<lparr>refreshTokens := refreshToken_update_id (rt_id st) (refreshTokens d)\<rparr>)
             usr (jwt_organizationId decoded) (Some (rt_family st))) of
        Inl err \<Rightarrow> Inl err
      | Inr tokens \<Rightarrow> if env_tokenUpdate_rejects e then Inl PrismaError else Inr tokens,
      snd (generateTokenPair J cfg e
             (if env_tokenUpdate_rejects e then d
              else d\<lparr>refreshTokens := refreshToken_update_id (rt_id st) (refreshTokens d)\<rparr>)
             usr (jwt_organizationId decoded) (Some (rt_family st))))"
  using assms by (simp add: refresh_def Let_def)

lemma replicate_5: "replicate 5 x = [x, x, x, x, x]"
  by (simp add: numeral_eq_Suc)

lemma example_expiry: "expiryToDate (jwt_refreshExpiry example_config) 5000 = Some 604805000"
  by (simp add: example_config_def expiryToDate_def units_def parseInt10_def digit_value_def)

lemma example_users:
  "find (\<lambda>u. usr_id u = ''u-1'') (users example_db) =
     Some \<lparr>usr_id = ''u-1'', usr_email = ''manager@acme.com'', usr_organizationId = ''o-1'',
           usr_passwordHash = ''bcrypt(Admin@123)'', usr_firstName = ''Mia'',
           usr_lastName = ''Manager'', usr_isActive = True, usr_lastLoginAt = None\<rparr>"
  by (simp add: example_db_def)

lemma example_verify_T1:
  "jwt_verify example_jwt ''rs:u-1:fam-1:ii'' (jwt_refreshSecret example_config) 5000 =
     Some \<lparr>jwt_sub = ''u-1'', jwt_email = None, jwt_organizationId = ''o-1'',
           jwt_family = Some ''fam-1'', jwt_exp = Some 604802\<rparr>"
  by (simp add: example_jwt_def example_tokens_def example_config_def)

lemma example_find_T1:
  "find (\<lambda>t. rt_token t = ''rs:u-1:fam-1:ii'') (refreshTokens example_db) =
     Some \<lparr>rt_id = ''rt-1'', rt_token = ''rs:u-1:fam-1:ii'', rt_userId = ''u-1'',
           rt_family = ''fam-1'', rt_expiresAt = 604802000, rt_isRevoked = False\<rparr>"
  by (simp add: example_rows)

lemma example_sign_access:
  "jwt_sign example_jwt
     \<lparr>jwt_sub = ''u-1'', jwt_email = Some ''manager@acme.com'', jwt_organizationId = ''o-1'',
      jwt_family = None, jwt_exp = None\<rparr> ''as'' ''15m'' 5000 = Inr ''as:u-1:access:iiiii''"
  by (simp add: example_jwt_def expiryToDate_def units_def replicate_5)

lemma example_sign_refresh:
  "jwt_sign example_jwt
     \<lparr>jwt_sub = ''u-1'', jwt_email = None, jwt_organizationId = ''o-1'',
      jwt_family = Some family, jwt_exp = None\<rparr> ''rs'' ''7d'' 5000 =
   Inr (''rs:u-1:'' @ family @ '':iiiii'')"
  by (simp add: example_jwt_def expiryToDate_def units_def replicate_5)

lemma example_generate:
  assumes "env_now e = 5000" and "env_rowId e = ''rt-9''"
  shows "generateTokenPair example_jwt example_config e d
           \<lparr>usr_id = ''u-1'', usr_email = ''manager@acme.com'', usr_organizationId = ''o-1'',
        usr_passwordHash = ''bcrypt(Admin@123)'', usr_firstName = ''Mia'',
        usr_lastName = ''Manager'', usr_isActive = True, usr_lastLoginAt = None\<rparr>
           ''o-1'' (Some ''fam-1'') =
         (if env_tokenCreate_rejects e then (Inl PrismaError, d)
          else (Inr \<lparr>tp_accessToken = ''as:u-1:access:iiiii'',
                     tp_refreshToken = ''rs:u-1:fam-1:iiiii''\<rparr>,
                d\<lparr>refreshTokens := refreshTokens d @
                   [\<lparr>rt_id = ''rt-9'', rt_token = ''rs:u-1:fam-1:iiiii'', rt_userId = ''u-1'',
                     rt_family = ''fam-1'', rt_expiresAt = 604805000, rt_isRevoked = False\<rparr>]\<rparr>))"
proof -
  have f: "''fam-1'' = (case Some ''fam-1'' of None \<Rightarrow> env_uuid e
                      | Some f \<Rightarrow> if f = [] then env_uuid e else f)"
    by simp
  have a: "jwt_sign example_jwt
        \<lparr>jwt_sub = usr_id \<lparr>usr_id = ''u-1'', usr_email = ''manager@acme.com'', usr_organizationId = ''o-1'',
        usr_passwordHash = ''bcrypt(Admin@123)'', usr_firstName = ''Mia'',
        usr_lastName = ''Manager'', usr_isActive = True, usr_lastLoginAt = None\<rparr>,
         jwt_email = Some (usr_email \<lparr>usr_id = ''u-1'', usr_email = ''manager@acme.com'', usr_organizationId = ''o-1'',
        usr_passwordHash = ''bcrypt(Admin@123)'', usr_firstName = ''Mia'',
        usr_lastName = ''Manager'', usr_isActive = True, usr_lastLoginAt = None\<rparr>),
         jwt_organizationId = ''o-1'', jwt_family = None, jwt_exp = None\<rparr>
        (jwt_accessSecret example_config) (jwt_accessExpiry example_config) (env_now e) =
      Inr ''as:u-1:access:iiiii''"
    unfolding assms(1) by (simp add: example_config_def example_sign_access)
  have r: "jwt_sign example_jwt
        \<lparr>jwt_sub = usr_id \<lparr>usr_id = ''u-1'', usr_email = ''manager@acme.com'', usr_organizationId = ''o-1'',
        usr_passwordHash = ''bcrypt(Admin@123)'', usr_firstName = ''Mia'',
        usr_lastName = ''Manager'', usr_isActive = True, usr_lastLoginAt = None\<rparr>,
         jwt_email = None,
         jwt_organizationId = ''o-1'', jwt_family = Some ''fam-1'', jwt_exp = None\<rparr>
        (jwt_refreshSecret example_config) (jwt_refreshExpiry example_config) (env_now e) =
      Inr ''rs:u-1:fam-1:iiiii''"
    unfolding assms(1) by (simp add: example_config_def example_sign_refresh)
  have x: "expiryToDate (jwt_refreshExpiry example_config) (env_now e) = Some 604805000"
    unfolding assms(1) by (rule example_expiry)
  show ?thesis
  proof (cases "env_tokenCreate_rejects e")
    case True
    show ?thesis
      unfolding generateTokenPair_rejected [OF f a r x True] using True by simp
  next
    case False
    show ?thesis
      unfolding generateTokenPair_created [OF f a r x False] using False by (simp add: assms(2))
  qed
qed

lemma example_refresh_T1:
  assumes "env_now e = 5000"
  shows "refresh example_jwt example_config e example_db ''rs:u-1:fam-1:ii'' =
     (case fst (generateTokenPair example_jwt example_config e
             (if env_tokenUpdate_rejects e then example_db
              else example_db\<lparr>refreshTokens :=
                     refreshToken_update_id ''rt-1'' (refreshTokens example_db)\<rparr>)
             \<lparr>usr_id = ''u-1'', usr_email = ''manager@acme.com'', usr_organizationId = ''o-1'',
        usr_passwordHash = ''bcrypt(Admin@123)'', usr_firstName = ''Mia'',
        usr_lastName = ''Manager'', usr_isActive = True, usr_lastLoginAt = None\<rparr>
             ''o-1'' (Some ''fam-1'')) of
        Inl err \<Rightarrow> Inl err
      | Inr tokens \<Rightarrow> if env_tokenUpdate_rejects e then Inl PrismaError else Inr tokens,
      snd (generateTokenPair example_jwt example_config e
             (if env_tokenUpdate_rejects e then example_db
              else example_db\<lparr>refreshTokens :=
                     refreshToken_update_id ''rt-1'' (refreshTokens example_db)\<rparr>)
             \<lparr>usr_id = ''u-1'', usr_email = ''manager@acme.com'', usr_organizationId = ''o-1'',
        usr_passwordHash = ''bcrypt(Admin@123)'', usr_firstName = ''Mia'',
        usr_lastName = ''Manager'', usr_isActive = True, usr_lastLoginAt = None\<rparr>
             ''o-1'' (Some ''fam-1'')))"
proof -
  have v: "jwt_verify example_jwt ''rs:u-1:fam-1:ii'' (jwt_refreshSecret example_config) (env_now e) =
     Some \<lparr>jwt_sub = ''u-1'', jwt_email = None, jwt_organizationId = ''o-1'',
           jwt_family = Some ''fam-1'', jwt_exp = Some 604802\<rparr>"
    unfolding assms by (rule example_verify_T1)
  have u: "find (\<lambda>u. usr_id u = rt_userId \<lparr>rt_id = ''rt-1'', rt_token = ''rs:u-1:fam-1:ii'', rt_userId = ''u-1'',
           rt_family = ''fam-1'', rt_expiresAt = 604802000, rt_isRevoked = False\<rparr>) (users example_db) =
     Some \<lparr>usr_id = ''u-1'', usr_email = ''manager@acme.com'', usr_organizationId = ''o-1'',
        usr_passwordHash = ''bcrypt(Admin@123)'', usr_firstName = ''Mia'',
        usr_lastName = ''Manager'', usr_isActive = True, usr_lastLoginAt = None\<rparr>"
    by (simp add: example_users)
  have r: "\<not> rt_isRevoked \<lparr>rt_id = ''rt-1'', rt_token = ''rs:u-1:fam-1:ii'', rt_userId = ''u-1'',
           rt_family = ''fam-1'', rt_expiresAt = 604802000, rt_isRevoked = False\<rparr>"
    by simp
  have x: "\<not> rt_expiresAt \<lparr>rt_id = ''rt-1'', rt_token = ''rs:u-1:fam-1:ii'', rt_userId = ''u-1'',
           rt_family = ''fam-1'', rt_expiresAt = 604802000, rt_isRevoked = False\<rparr> < env_now e"
    unfolding assms by simp
  have a: "usr_isActive \<lparr>usr_id = ''u-1'', usr_email = ''manager@acme.com'', usr_organizationId = ''o-1'',
        usr_passwordHash = ''bcrypt(Admin@123)'', usr_firstName = ''Mia'',
        usr_lastName = ''Manager'', usr_isActive = True, usr_lastLoginAt = None\<rparr>"
    by simp
  show ?thesis
    unfolding refresh_rotate [OF v example_find_T1 r x u a] by simp
qed

lemma example_update_T1:
  "refreshToken_update_id ''rt-1'' (refreshTokens example_db) =
     [\<lparr>rt_id = ''rt-0'', rt_token = ''rs:u-1:fam-1:i'', rt_userId = ''u-1'',
       rt_family = ''fam-1'', rt_expiresAt = 604801000, rt_isRevoked = True\<rparr>,
      \<lparr>rt_id = ''rt-1'', rt_token = ''rs:u-1:fam-1:ii'', rt_userId = ''u-1'',
       rt_family = ''fam-1'', rt_expiresAt = 604802000, rt_isRevoked = True\<rparr>,
      \<lparr>rt_id = ''rt-2'', rt_token = ''rs:u-1:fam-2:i'', rt_userId = ''u-1'',
       rt_family = ''fam-2'', rt_expiresAt = 604801000, rt_isRevoked = False\<rparr>]"
  by (simp add: refreshToken_update_id_def example_rows)

lemma example_invariant: "family_invariant example_db"
  by (simp add: family_invariant_def active_in_family_def example_rows)

text \<open>
  C2, evaluated where the code departs from it. The presented token is valid and
  active, its user is active, and the store rejects the creation of the successor row.
  The revocation of the presented token is an independent call and has taken effect:
  \<open>refresh\<close> fails, and the store is left with the presented token revoked and no
  successor, so the family has no active token any more.
\<close>

theorem refresh_rotation_not_atomic:
  "fst (refresh example_jwt example_config (example_env\<lparr>env_tokenCreate_rejects := True\<rparr>)
          example_db ''rs:u-1:fam-1:ii'') = Inl PrismaError \<and>
   refreshTokens
     (snd (refresh example_jwt example_config (example_env\<lparr>env_tokenCreate_rejects := True\<rparr>)
             example_db ''rs:u-1:fam-1:ii'')) =
     [\<lparr>rt_id = ''rt-0'', rt_token = ''rs:u-1:fam-1:i'', rt_userId = ''u-1'',
       rt_family = ''fam-1'', rt_expiresAt = 604801000, rt_isRevoked = True\<rparr>,
      \<lparr>rt_id = ''rt-1'', rt_token = ''rs:u-1:fam-1:ii'', rt_userId = ''u-1'',
       rt_family = ''fam-1'', rt_expiresAt = 604802000, rt_isRevoked = True\<rparr>,
      \<lparr>rt_id = ''rt-2'', rt_token = ''rs:u-1:fam-2:i'', rt_userId = ''u-1'',
       rt_family = ''fam-2'', rt_expiresAt = 604801000, rt_isRevoked = False\<rparr>] \<and>
   \<not> rt_isRevoked (refreshTokens example_db ! 1) \<and>
   snd (refresh example_jwt example_config (example_env\<lparr>env_tokenCreate_rejects := True\<rparr>)
          example_db ''rs:u-1:fam-1:ii'') \<noteq> example_db"
proof -
  let ?e = "example_env\<lparr>env_tokenCreate_rejects := True\<rparr>"
  have n: "env_now ?e = 5000" "env_rowId ?e = ''rt-9''" by (simp_all add: example_env_def)
  have u: "\<not> env_tokenUpdate_rejects ?e" by (simp add: example_env_def)
  have c: "env_tokenCreate_rejects ?e" by simp
  have r: "refresh example_jwt example_config ?e example_db ''rs:u-1:fam-1:ii'' =
      (Inl PrismaError,
       example_db\<lparr>refreshTokens := refreshToken_update_id ''rt-1'' (refreshTokens example_db)\<rparr>)"
    unfolding example_refresh_T1 [OF n(1)] example_generate [OF n]
    using u c by simp
  have rows: "refreshTokens (snd (refresh example_jwt example_config ?e example_db ''rs:u-1:fam-1:ii'')) =
      refreshToken_update_id ''rt-1'' (refreshTokens example_db)"
    unfolding r by simp
  have a: "fst (refresh example_jwt example_config ?e example_db ''rs:u-1:fam-1:ii'') = Inl PrismaError"
    unfolding r by simp
  have b: "\<not> rt_isRevoked (refreshTokens example_db ! 1)"
    by (simp add: example_rows)
  have "refreshTokens (snd (refresh example_jwt example_config ?e example_db ''rs:u-1:fam-1:ii'')) \<noteq>
      refreshTokens example_db"
    unfolding rows example_update_T1 by (simp add: example_rows)
  then have d: "snd (refresh example_jwt example_config ?e example_db ''rs:u-1:fam-1:ii'') \<noteq> example_db"
    by (rule contrapos_nn) simp
  from a rows [unfolded example_update_T1] b d show ?thesis by (intro conjI)
qed

text \<open>
  C3, evaluated where the code departs from it. The store satisfies the family
  invariant; the presented token is valid and active, and the store rejects its
  revocation while it accepts the creation of the successor. \<open>refresh\<close> fails, and
  the family is left with two active rows: the presented token and its successor.
\<close>

theorem refresh_rotation_two_active:
  "family_invariant example_db \<and>
   fst (refresh example_jwt example_config (example_env\<lparr>env_tokenUpdate_rejects := True\<rparr>)
          example_db ''rs:u-1:fam-1:ii'') = Inl PrismaError \<and>
   active_in_family
     (snd (refresh example_jwt example_config (example_env\<lparr>env_tokenUpdate_rejects := True\<rparr>)
             example_db ''rs:u-1:fam-1:ii'')) ''fam-1'' =
     [\<lparr>rt_id = ''rt-1'', rt_token = ''rs:u-1:fam-1:ii'', rt_userId = ''u-1'',
       rt_family = ''fam-1'', rt_expiresAt = 604802000, rt_isRevoked = False\<rparr>,
      \<lparr>rt_id = ''rt-9'', rt_token = ''rs:u-1:fam-1:iiiii'', rt_userId = ''u-1'',
       rt_family = ''fam-1'', rt_expiresAt = 604805000, rt_isRevoked = False\<rparr>] \<and>
   \<not> family_invariant
     (snd (refresh example_jwt example_config (example_env\<lparr>env_tokenUpdate_rejects := True\<rparr>)
             example_db ''rs:u-1:fam-1:ii''))"
proof -
  let ?e = "example_env\<lparr>env_tokenUpdate_rejects := True\<rparr>"
  have n: "env_now ?e = 5000" "env_rowId ?e = ''rt-9''" by (simp_all add: example_env_def)
  have u: "env_tokenUpdate_rejects ?e" by simp
  have c: "\<not> env_tokenCreate_rejects ?e" by (simp add: example_env_def)
  have r: "refresh example_jwt example_config ?e example_db ''rs:u-1:fam-1:ii'' =
      (Inl PrismaError,
       example_db\<lparr>refreshTokens := refreshTokens example_db @
         [\<lparr>rt_id = ''rt-9'', rt_token = ''rs:u-1:fam-1:iiiii'', rt_userId = ''u-1'',
           rt_family = ''fam-1'', rt_expiresAt = 604805000, rt_isRevoked = False\<rparr>]\<rparr>)"
    unfolding example_refresh_T1 [OF n(1)] example_generate [OF n]
    using u c by simp
  have rows: "refreshTokens (snd (refresh example_jwt example_config ?e example_db ''rs:u-1:fam-1:ii'')) =
      refreshTokens example_db @
      [\<lparr>rt_id = ''rt-9'', rt_token = ''rs:u-1:fam-1:iiiii'', rt_userId = ''u-1'',
        rt_family = ''fam-1'', rt_expiresAt = 604805000, rt_isRevoked = False\<rparr>]"
    unfolding r by simp
  have a: "fst (refresh example_jwt example_config ?e example_db ''rs:u-1:fam-1:ii'') = Inl PrismaError"
    unfolding r by simp
  have f: "active_in_family
     (snd (refresh example_jwt example_config ?e example_db ''rs:u-1:fam-1:ii'')) ''fam-1'' =
     [\<lparr>rt_id = ''rt-1'', rt_token = ''rs:u-1:fam-1:ii'', rt_userId = ''u-1'',
       rt_family = ''fam-1'', rt_expiresAt = 604802000, rt_isRevoked = False\<rparr>,
      \<lparr>rt_id = ''rt-9'', rt_token = ''rs:u-1:fam-1:iiiii'', rt_userId = ''u-1'',
       rt_family = ''fam-1'', rt_expiresAt = 604805000, rt_isRevoked = False\<rparr>]"
    unfolding active_in_family_def rows by (simp add: example_rows)
  have i: "\<not> family_invariant
     (snd (refresh example_jwt example_config ?e example_db ''rs:u-1:fam-1:ii''))"
    unfolding family_invariant_def active_in_family_def rows by (simp add: example_rows)
  from example_invariant a f i show ?thesis by (intro conjI)
qed

section \<open>Logout\<close>

lemma logout_cache:
  "fst (logout J C e (c, d) accessToken rt userId) =
     (case accessToken of
        None \<Rightarrow> c
      | Some at \<Rightarrow>
          if at = [] then c
          else (case jwt_decode J at of
                  None \<Rightarrow> c
                | Some decoded \<Rightarrow>
                    (case jwt_exp decoded of
                       None \<Rightarrow> c
                     | Some ex \<Rightarrow>
                         if ex = 0 then c
                         else if 0 < ex - int (env_now e div 1000)
                         then cache_set C c (''blacklist:'' @ at) (CBool True)
                                (ex - int (env_now e div 1000))
                         else c)))"
  by (simp add: logout_def Let_def split: option.splits)

lemma logout_store:
  "snd (logout J C e (c, d) accessToken refreshToken userId) =
     (case refreshToken of
        None \<Rightarrow> d
      | Some rt \<Rightarrow>
          if rt = [] then d
          else d\<lparr>refreshTokens :=
                 map (\<lambda>t. if rt_token t = rt \<and> rt_userId t = userId
                           then t\<lparr>rt_isRevoked := True\<rparr> else t)
                   (refreshTokens d)\<rparr>)"
  by (simp add: logout_def Let_def)

lemma example_decode_access:
  "jwt_decode example_jwt ''as:u-1:access:ii'' =
     Some \<lparr>jwt_sub = ''u-1'', jwt_email = Some ''manager@acme.com'', jwt_organizationId = ''o-1'',
           jwt_family = None, jwt_exp = Some 902\<rparr>"
  by (simp add: example_jwt_def example_tokens_def)

text \<open>
  C7. For a logout call that presents an access token whose payload carries an expiry
  claim, the blacklist entry is written with a TTL equal to the expiry claim minus the
  clock in seconds when that difference is positive, and the cache is left untouched
  when it is zero or negative. A token that cannot be decoded or has no expiry claim,
  and a call without an access token, leave the cache untouched as well.
\<close>

theorem logout_blacklist_ttl:
  "(at \<noteq> [] \<and> jwt_decode J at = Some decoded \<and> jwt_exp decoded = Some ex \<longrightarrow>
      fst (logout J C e (c, d) (Some at) rt userId) =
        (if 0 < ex - int (env_now e div 1000)
         then cache_set C c (''blacklist:'' @ at) (CBool True) (ex - int (env_now e div 1000))
         else c)) \<and>
   (jwt_decode J at = None \<longrightarrow> fst (logout J C e (c, d) (Some at) rt userId) = c) \<and>
   (jwt_decode J at = Some decoded \<and> jwt_exp decoded = None \<longrightarrow>
      fst (logout J C e (c, d) (Some at) rt userId) = c) \<and>
   fst (logout J C e (c, d) None rt userId) = c"
proof (intro conjI impI)
  assume h: "at \<noteq> [] \<and> jwt_decode J at = Some decoded \<and> jwt_exp decoded = Some ex"
  show "fst (logout J C e (c, d) (Some at) rt userId) =
        (if 0 < ex - int (env_now e div 1000)
         then cache_set C c (''blacklist:'' @ at) (CBool True) (ex - int (env_now e div 1000))
         else c)"
  proof (cases "ex = 0")
    case True
    with h show ?thesis by (simp add: logout_cache)
  next
    case False
    with h show ?thesis by (simp add: logout_cache)
  qed
next
  assume "jwt_decode J at = None"
  then show "fst (logout J C e (c, d) (Some at) rt userId) = c"
    by (simp add: logout_cache)
next
  assume "jwt_decode J at = Some decoded \<and> jwt_exp decoded = None"
  then show "fst (logout J C e (c, d) (Some at) rt userId) = c"
    by (simp add: logout_cache)
next
  show "fst (logout J C e (c, d) None rt userId) = c"
    by (simp add: logout_cache)
qed

theorem logout_blacklist_ttl_witness:
  "fst (logout example_jwt kv_cache example_env ([], example_db) (Some ''as:u-1:access:ii'') None ''u-1'') =
     [(''blacklist:as:u-1:access:ii'', CBool True, 897)] \<and>
   fst (logout example_jwt kv_cache (example_env\<lparr>env_now := 902000\<rparr>) ([], example_db)
          (Some ''as:u-1:access:ii'') None ''u-1'') = [] \<and>
   jwt_decode example_jwt ''garbage'' = None \<and>
   fst (logout example_jwt kv_cache example_env ([], example_db) (Some ''garbage'') None ''u-1'') = [] \<and>
   map_option jwt_exp (jwt_decode example_jwt ''as:u-1:access:'') = Some None \<and>
   fst (logout example_jwt kv_cache example_env ([], example_db) (Some ''as:u-1:access:'') None ''u-1'') = []"
proof -
  have k: "jwt_decode example_jwt ''as:u-1:access:'' =
        Some \<lparr>jwt_sub = ''u-1'', jwt_email = Some ''manager@acme.com'', jwt_organizationId = ''o-1'',
           jwt_family = None, jwt_exp = None\<rparr> \<and>
      jwt_exp \<lparr>jwt_sub = ''u-1'', jwt_email = Some ''manager@acme.com'', jwt_organizationId = ''o-1'',
           jwt_family = None, jwt_exp = None\<rparr> = None"
    by (simp add: example_jwt_def example_tokens_def)
  note t3 = logout_blacklist_ttl [THEN conjunct2, THEN conjunct2, THEN conjunct1, rule_format, OF k]
  have k': "map_option jwt_exp (jwt_decode example_jwt ''as:u-1:access:'') = Some None"
    by (simp add: example_jwt_def example_tokens_def)
  have n: "fst (logout example_jwt kv_cache example_env ([], example_db) (Some ''as:u-1:access:'') None ''u-1'') = []"
    by (rule t3)
  have h: "''as:u-1:access:ii'' \<noteq> [] \<and>
      jwt_decode example_jwt ''as:u-1:access:ii'' =
        Some \<lparr>jwt_sub = ''u-1'', jwt_email = Some ''manager@acme.com'', jwt_organizationId = ''o-1'',
           jwt_family = None, jwt_exp = Some 902\<rparr> \<and>
      jwt_exp \<lparr>jwt_sub = ''u-1'', jwt_email = Some ''manager@acme.com'', jwt_organizationId = ''o-1'',
           jwt_family = None, jwt_exp = Some 902\<rparr> = Some 902"
    by (simp add: example_decode_access)
  have g: "jwt_decode example_jwt ''garbage'' = None"
    by (simp add: example_jwt_def example_tokens_def)
  note t1 = logout_blacklist_ttl [THEN conjunct1, rule_format, OF h]
  note t2 = logout_blacklist_ttl [THEN conjunct2, THEN conjunct1, rule_format, OF g]
  have a: "fst (logout example_jwt kv_cache example_env ([], example_db) (Some ''as:u-1:access:ii'') None ''u-1'') =
     [(''blacklist:as:u-1:access:ii'', CBool True, 897)]"
    unfolding t1 by (simp add: example_env_def kv_cache_def)
  have b: "fst (logout example_jwt kv_cache (example_env\<lparr>env_now := 902000\<rparr>) ([], example_db)
          (Some ''as:u-1:access:ii'') None ''u-1'') = []"
    unfolding t1 by (simp add: example_env_def)
  have c: "fst (logout example_jwt kv_cache example_env ([], example_db) (Some ''garbage'') None ''u-1'') = []"
    by (rule t2)
  from a b g c k' n show ?thesis by (intro conjI)
qed



section \<open>Login\<close>

lemma login_no_organization:
  assumes "find (\<lambda>org. org_slug org = slug) (organizations d) = None \<or>
           (\<exists>org. find (\<lambda>org. org_slug org = slug) (organizations d) = Some org \<and> \<not> org_isActive org)"
  shows "login cmp J cfg e d email password slug = (Inl (NotFoundError ''Organization''), d)"
  using assms by (auto simp: login_def)

lemma login_no_user:
  assumes "find (\<lambda>org. org_slug org = slug) (organizations d) = Some org"
    and "org_isActive org"
    and "find (\<lambda>u. usr_email u = email \<and> usr_organizationId u = org_id org) (users d) = None \<or>
         (\<exists>usr. find (\<lambda>u. usr_email u = email \<and> usr_organizationId u = org_id org) (users d) = Some usr
                \<and> \<not> usr_isActive usr)"
  shows "login cmp J cfg e d email password slug = (Inl (UnauthorizedError ''Invalid credentials''), d)"
  using assms by (auto simp: login_def)

lemma login_wrong_password:
  assumes "find (\<lambda>org. org_slug org = slug) (organizations d) = Some org"
    and "org_isActive org"
    and "find (\<lambda>u. usr_email u = email \<and> usr_organizationId u = org_id org) (users d) = Some usr"
    and "usr_isActive usr"
    and "\<not> cmp password (usr_passwordHash usr)"
  shows "login cmp J cfg e d email password slug = (Inl (UnauthorizedError ''Invalid credentials''), d)"
  using assms by (simp add: login_def)

lemma login_verified:
  assumes "find (\<lambda>org. org_slug org = slug) (organizations d) = Some org"
    and "org_isActive org"
    and "find (\<lambda>u. usr_email u = email \<and> usr_organizationId u = org_id org) (users d) = Some usr"
    and "usr_isActive usr"
    and "cmp password (usr_passwordHash usr)"
  shows "login cmp J cfg e d email password slug =
     (case generateTokenPair J cfg e d usr (org_id org) None of
        (Inl err, d1) \<Rightarrow> (Inl err, d1)
      | (Inr tokens, d1) \<Rightarrow>
          if env_userUpdate_rejects e then (Inl PrismaError, d1)
          else (Inr \<lparr>lr_accessToken = tp_accessToken tokens,
                     lr_refreshToken = tp_refreshToken tokens,
                     lr_user =
                       \<lparr>us_id = usr_id usr, us_email = usr_email usr,
                        us_firstName = usr_firstName usr, us_lastName = usr_lastName usr,
                        us_organizationId = org_id org,
                        us_userRoles =
                          map (\<lambda>ur. (ur,
                                 map_option
                                   (\<lambda>r. (role_id r, role_name r, role_description r, role_isSystem r))
                                   (find (\<lambda>r. role_id r = ur_roleId ur) (roles d1))))
                            (filter (\<lambda>ur. ur_userId ur = usr_id usr) (userRoles d1))\<rparr>\<rparr>,
                d1\<lparr>users :=
                     map (\<lambda>u. if usr_id u = usr_id usr
                               then u\<lparr>usr_lastLoginAt := Some (env_now e)\<rparr> else u)
                       (users d1)\<rparr>))"
  using assms by (simp add: login_def Let_def split: prod.splits sum.splits)


lemma login_issued:
  assumes "find (\<lambda>org. org_slug org = slug) (organizations d) = Some org"
    and "org_isActive org"
    and "find (\<lambda>u. usr_email u = email \<and> usr_organizationId u = org_id org) (users d) = Some usr"
    and "usr_isActive usr"
    and "cmp password (usr_passwordHash usr)"
    and "jwt_sign J
        \<lparr>jwt_sub = usr_id usr, jwt_email = Some (usr_email usr),
         jwt_organizationId = org_id org, jwt_family = None, jwt_exp = None\<rparr>
        (jwt_accessSecret cfg) (jwt_accessExpiry cfg) (env_now e) = Inr accessToken"
    and "jwt_sign J
        \<lparr>jwt_sub = usr_id usr, jwt_email = None,
         jwt_organizationId = org_id org, jwt_family = Some (env_uuid e), jwt_exp = None\<rparr>
        (jwt_refreshSecret cfg) (jwt_refreshExpiry cfg) (env_now e) = Inr refreshToken"
    and "expiryToDate (jwt_refreshExpiry cfg) (env_now e) = Some expiresAt"
    and "\<not> env_tokenCreate_rejects e"
  shows "login cmp J cfg e d email password slug =
     (if env_userUpdate_rejects e
      then (Inl PrismaError, d\<lparr>refreshTokens := refreshTokens d @ [\<lparr>rt_id = env_rowId e, rt_token = refreshToken, rt_userId = usr_id usr,
             rt_family = env_uuid e, rt_expiresAt = expiresAt, rt_isRevoked = False\<rparr>]\<rparr>)
      else (Inr \<lparr>lr_accessToken = accessToken, lr_refreshToken = refreshToken,
                 lr_user =
                   \<lparr>us_id = usr_id usr, us_email = usr_email usr,
                    us_firstName = usr_firstName usr, us_lastName = usr_lastName usr,
                    us_organizationId = org_id org,
                    us_userRoles =
                      map (\<lambda>ur. (ur,
                             map_option
                               (\<lambda>r. (role_id r, role_name r, role_description r, role_isSystem r))
                               (find (\<lambda>r. role_id r = ur_roleId ur) (roles d))))
                        (filter (\<lambda>ur. ur_userId ur = usr_id usr) (userRoles d))\<rparr>\<rparr>,
            d\<lparr>refreshTokens := refreshTokens d @ [\<lparr>rt_id = env_rowId e, rt_token = refreshToken, rt_userId = usr_id usr,
             rt_family = env_uuid e, rt_expiresAt = expiresAt, rt_isRevoked = False\<rparr>],
              users := map (\<lambda>u. if usr_id u = usr_id usr
                                 then u\<lparr>usr_lastLoginAt := Some (env_now e)\<rparr> else u)
                         (users d)\<rparr>))"
proof -
  have f: "env_uuid e = (case None of None \<Rightarrow> env_uuid e
                        | Some f \<Rightarrow> if f = [] then env_uuid e else f)"
    by simp
  show ?thesis
    unfolding login_verified [where cmp = cmp and password = password, OF assms(1-5)]
      generateTokenPair_created [OF f assms(6-9)]
    by simp
qed

lemma login_sign_throws:
  assumes "find (\<lambda>org. org_slug org = slug) (organizations d) = Some org"
    and "org_isActive org"
    and "find (\<lambda>u. usr_email u = email \<and> usr_organizationId u = org_id org) (users d) = Some usr"
    and "usr_isActive usr"
    and "cmp password (usr_passwordHash usr)"
    and "jwt_sign J
        \<lparr>jwt_sub = usr_id usr, jwt_email = Some (usr_email usr),
         jwt_organizationId = org_id org, jwt_family = None, jwt_exp = None\<rparr>
        (jwt_accessSecret cfg) (jwt_accessExpiry cfg) (env_now e) = Inl err \<or>
         (jwt_sign J
        \<lparr>jwt_sub = usr_id usr, jwt_email = Some (usr_email usr),
         jwt_organizationId = org_id org, jwt_family = None, jwt_exp = None\<rparr>
        (jwt_accessSecret cfg) (jwt_accessExpiry cfg) (env_now e) = Inr accessToken \<and>
          jwt_sign J
        \<lparr>jwt_sub = usr_id usr, jwt_email = None,
         jwt_organizationId = org_id org, jwt_family = Some (env_uuid e), jwt_exp = None\<rparr>
        (jwt_refreshSecret cfg) (jwt_refreshExpiry cfg) (env_now e) = Inl err)"
  shows "login cmp J cfg e d email password slug = (Inl err, d)"
  using assms(6)
proof
  assume "jwt_sign J
        \<lparr>jwt_sub = usr_id usr, jwt_email = Some (usr_email usr),
         jwt_organizationId = org_id org, jwt_family = None, jwt_exp = None\<rparr>
        (jwt_accessSecret cfg) (jwt_accessExpiry cfg) (env_now e) = Inl err"
  then show ?thesis
    unfolding login_verified [where cmp = cmp and password = password, OF assms(1-5)]
    by (simp add: generateTokenPair_access_throws)
next
  assume a: "jwt_sign J
        \<lparr>jwt_sub = usr_id usr, jwt_email = Some (usr_email usr),
         jwt_organizationId = org_id org, jwt_family = None, jwt_exp = None\<rparr>
        (jwt_accessSecret cfg) (jwt_accessExpiry cfg) (env_now e) = Inr accessToken \<and>
          jwt_sign J
        \<lparr>jwt_sub = usr_id usr, jwt_email = None,
         jwt_organizationId = org_id org, jwt_family = Some (env_uuid e), jwt_exp = None\<rparr>
        (jwt_refreshSecret cfg) (jwt_refreshExpiry cfg) (env_now e) = Inl err"
  have f: "env_uuid e = (case None of None \<Rightarrow> env_uuid e
                        | Some f \<Rightarrow> if f = [] then env_uuid e else f)"
    by simp
  note g = generateTokenPair_refresh_throws [where d = d, OF f a [THEN conjunct1] a [THEN conjunct2]]
  show ?thesis
    unfolding login_verified [where cmp = cmp and password = password, OF assms(1-5)] g
    by simp
qed

lemma example_find_org:
  "find (\<lambda>org. org_slug org = ''acme-corp'') (organizations example_db) = Some \<lparr>org_id = ''o-1'', org_slug = ''acme-corp'', org_isActive = True\<rparr>"
  by (simp add: example_db_def)

lemma example_find_no_org:
  "find (\<lambda>org. org_slug org = ''acme-corpx'') (organizations example_db) = None"
  by (simp add: example_db_def)

lemma example_find_user:
  "find (\<lambda>u. usr_email u = ''manager@acme.com'' \<and> usr_organizationId u = org_id \<lparr>org_id = ''o-1'', org_slug = ''acme-corp'', org_isActive = True\<rparr>)
     (users example_db) =
   Some \<lparr>usr_id = ''u-1'', usr_email = ''manager@acme.com'', usr_organizationId = ''o-1'',
        usr_passwordHash = ''bcrypt(Admin@123)'', usr_firstName = ''Mia'',
        usr_lastName = ''Manager'', usr_isActive = True, usr_lastLoginAt = None\<rparr>"
  by (simp add: example_db_def)

lemma example_find_no_user:
  "find (\<lambda>u. usr_email u = ''nobody@acme.com'' \<and> usr_organizationId u = org_id \<lparr>org_id = ''o-1'', org_slug = ''acme-corp'', org_isActive = True\<rparr>)
     (users example_db) = None"
  by (simp add: example_db_def)

lemma example_login_signs:
  assumes "env_now e = 5000" and "env_uuid e = ''fam-9''"
  shows "jwt_sign example_jwt
        \<lparr>jwt_sub = usr_id \<lparr>usr_id = ''u-1'', usr_email = ''manager@acme.com'', usr_organizationId = ''o-1'',
        usr_passwordHash = ''bcrypt(Admin@123)'', usr_firstName = ''Mia'',
        usr_lastName = ''Manager'', usr_isActive = True, usr_lastLoginAt = None\<rparr>,
         jwt_email = Some (usr_email \<lparr>usr_id = ''u-1'', usr_email = ''manager@acme.com'', usr_organizationId = ''o-1'',
        usr_passwordHash = ''bcrypt(Admin@123)'', usr_firstName = ''Mia'',
        usr_lastName = ''Manager'', usr_isActive = True, usr_lastLoginAt = None\<rparr>),
         jwt_organizationId = org_id \<lparr>org_id = ''o-1'', org_slug = ''acme-corp'', org_isActive = True\<rparr>, jwt_family = None, jwt_exp = None\<rparr>
        (jwt_accessSecret example_config) (jwt_accessExpiry example_config) (env_now e) =
      Inr ''as:u-1:access:iiiii''"
    and "jwt_sign example_jwt
        \<lparr>jwt_sub = usr_id \<lparr>usr_id = ''u-1'', usr_email = ''manager@acme.com'', usr_organizationId = ''o-1'',
        usr_passwordHash = ''bcrypt(Admin@123)'', usr_firstName = ''Mia'',
        usr_lastName = ''Manager'', usr_isActive = True, usr_lastLoginAt = None\<rparr>,
         jwt_email = None,
         jwt_organizationId = org_id \<lparr>org_id = ''o-1'', org_slug = ''acme-corp'', org_isActive = True\<rparr>, jwt_family = Some (env_uuid e), jwt_exp = None\<rparr>
        (jwt_refreshSecret example_config) (jwt_refreshExpiry example_config) (env_now e) =
      Inr ''rs:u-1:fam-9:iiiii''"
  unfolding assms by (simp_all add: example_config_def example_sign_access example_sign_refresh)

lemma example_login:
  assumes "env_now e = 5000" and "env_uuid e = ''fam-9''" and "env_rowId e = ''rt-9''"
    and "\<not> env_tokenCreate_rejects e"
  shows "login example_bcrypt example_jwt example_config e example_db
        ''manager@acme.com'' ''Admin@123'' ''acme-corp'' =
     (if env_userUpdate_rejects e
      then (Inl PrismaError,
            example_db\<lparr>refreshTokens := refreshTokens example_db @ [\<lparr>rt_id = ''rt-9'', rt_token = ''rs:u-1:fam-9:iiiii'', rt_userId = ''u-1'',
        rt_family = ''fam-9'', rt_expiresAt = 604805000, rt_isRevoked = False\<rparr>]\<rparr>)
      else (Inr \<lparr>lr_accessToken = ''as:u-1:access:iiiii'',
                 lr_refreshToken = ''rs:u-1:fam-9:iiiii'',
                 lr_user =
                   \<lparr>us_id = ''u-1'', us_email = ''manager@acme.com'', us_firstName = ''Mia'',
                    us_lastName = ''Manager'', us_organizationId = ''o-1'',
                    us_userRoles =
                      map (\<lambda>ur. (ur,
                             map_option
                               (\<lambda>r. (role_id r, role_name r, role_description r, role_isSystem r))
                               (find (\<lambda>r. role_id r = ur_roleId ur) (roles example_db))))
                        (filter (\<lambda>ur. ur_userId ur = ''u-1'') (userRoles example_db))\<rparr>\<rparr>,
            example_db\<lparr>refreshTokens := refreshTokens example_db @ [\<lparr>rt_id = ''rt-9'', rt_token = ''rs:u-1:fam-9:iiiii'', rt_userId = ''u-1'',
        rt_family = ''fam-9'', rt_expiresAt = 604805000, rt_isRevoked = False\<rparr>],
              users := map (\<lambda>u. if usr_id u = ''u-1''
                                 then u\<lparr>usr_lastLoginAt := Some 5000\<rparr> else u)
                         (users example_db)\<rparr>))"
proof -
  have o: "org_isActive \<lparr>org_id = ''o-1'', org_slug = ''acme-corp'', org_isActive = True\<rparr>" by simp
  have ua: "usr_isActive \<lparr>usr_id = ''u-1'', usr_email = ''manager@acme.com'', usr_organizationId = ''o-1'',
        usr_passwordHash = ''bcrypt(Admin@123)'', usr_firstName = ''Mia'',
        usr_lastName = ''Manager'', usr_isActive = True, usr_lastLoginAt = None\<rparr>" by simp
  have v: "example_bcrypt ''Admin@123'' (usr_passwordHash \<lparr>usr_id = ''u-1'', usr_email = ''manager@acme.com'', usr_organizationId = ''o-1'',
        usr_passwordHash = ''bcrypt(Admin@123)'', usr_firstName = ''Mia'',
        usr_lastName = ''Manager'', usr_isActive = True, usr_lastLoginAt = None\<rparr>)"
    by (simp add: example_bcrypt_def)
  have x: "expiryToDate (jwt_refreshExpiry example_config) (env_now e) = Some 604805000"
    unfolding assms(1) by (rule example_expiry)
  show ?thesis
    unfolding login_issued [where cmp = example_bcrypt and password = "''Admin@123''",
        OF example_find_org o example_find_user ua v example_login_signs [OF assms(1,2)] x assms(4)]
    by (simp add: assms(1,2,3))
qed

text \<open>
  With a malformed access expiry (\<open>JWT_ACCESS_EXPIRY=7x\<close>) signing throws: valid
  credentials do not log in, and nothing is written.
\<close>

lemma example_login_malformed_expiry:
  "login example_bcrypt example_jwt (example_config\<lparr>jwt_accessExpiry := ''7x''\<rparr>) example_env
     example_db ''manager@acme.com'' ''Admin@123'' ''acme-corp'' =
   (Inl (JsError ''expiresIn should be a number of seconds or string representing a timespan''),
    example_db)"
proof -
  have o: "org_isActive \<lparr>org_id = ''o-1'', org_slug = ''acme-corp'', org_isActive = True\<rparr>" by simp
  have ua: "usr_isActive \<lparr>usr_id = ''u-1'', usr_email = ''manager@acme.com'', usr_organizationId = ''o-1'',
        usr_passwordHash = ''bcrypt(Admin@123)'', usr_firstName = ''Mia'',
        usr_lastName = ''Manager'', usr_isActive = True, usr_lastLoginAt = None\<rparr>" by simp
  have v: "example_bcrypt ''Admin@123'' (usr_passwordHash \<lparr>usr_id = ''u-1'', usr_email = ''manager@acme.com'', usr_organizationId = ''o-1'',
        usr_passwordHash = ''bcrypt(Admin@123)'', usr_firstName = ''Mia'',
        usr_lastName = ''Manager'', usr_isActive = True, usr_lastLoginAt = None\<rparr>)"
    by (simp add: example_bcrypt_def)
  have x: "expiryToDate ''7x'' now = None" for now
    by (simp add: expiryToDate_def units_def)
  have s: "jwt_sign example_jwt
        \<lparr>jwt_sub = usr_id \<lparr>usr_id = ''u-1'', usr_email = ''manager@acme.com'', usr_organizationId = ''o-1'',
        usr_passwordHash = ''bcrypt(Admin@123)'', usr_firstName = ''Mia'',
        usr_lastName = ''Manager'', usr_isActive = True, usr_lastLoginAt = None\<rparr>,
         jwt_email = Some (usr_email \<lparr>usr_id = ''u-1'', usr_email = ''manager@acme.com'', usr_organizationId = ''o-1'',
        usr_passwordHash = ''bcrypt(Admin@123)'', usr_firstName = ''Mia'',
        usr_lastName = ''Manager'', usr_isActive = True, usr_lastLoginAt = None\<rparr>),
         jwt_organizationId = org_id \<lparr>org_id = ''o-1'', org_slug = ''acme-corp'', org_isActive = True\<rparr>, jwt_family = None, jwt_exp = None\<rparr>
        (jwt_accessSecret (example_config\<lparr>jwt_accessExpiry := ''7x''\<rparr>))
        (jwt_accessExpiry (example_config\<lparr>jwt_accessExpiry := ''7x''\<rparr>)) (env_now example_env) =
      Inl (JsError ''expiresIn should be a number of seconds or string representing a timespan'')"
    by (simp add: example_jwt_def x)
  show ?thesis
    by (rule login_sign_throws [where cmp = example_bcrypt and password = "''Admin@123''",
          OF example_find_org o example_find_user ua v disjI1, OF s])
qed

text \<open>
  C6, as the code has it. When the slug names an active organization, the email an
  active user of that organization, and the password matches the stored hash, \<open>login\<close>
  returns a token pair (the refresh token persisted as a new row), provided both tokens
  can be signed, the configured refresh expiry is well-formed, and the store accepts
  the two writes. When the email names no active user of the organization, or
  the password does not match, \<open>login\<close> fails with Unauthorized and the message
  \<open>Invalid credentials\<close>, the same error in both cases. When the slug names no
  active organization, \<open>login\<close> fails with NotFound (\<open>Organization not found\<close>).
\<close>

theorem login_outcomes:
  "((find (\<lambda>org. org_slug org = slug) (organizations d) = None \<or>
     (\<exists>org. find (\<lambda>org. org_slug org = slug) (organizations d) = Some org \<and> \<not> org_isActive org)) \<longrightarrow>
      login cmp J cfg e d email password slug = (Inl (NotFoundError ''Organization''), d)) \<and>
   (find (\<lambda>org. org_slug org = slug) (organizations d) = Some org \<and> org_isActive org \<and>
    (find (\<lambda>u. usr_email u = email \<and> usr_organizationId u = org_id org) (users d) = None \<or>
     (\<exists>usr. find (\<lambda>u. usr_email u = email \<and> usr_organizationId u = org_id org) (users d) = Some usr \<and> \<not> usr_isActive usr)) \<longrightarrow>
      login cmp J cfg e d email password slug = (Inl (UnauthorizedError ''Invalid credentials''), d)) \<and>
   (find (\<lambda>org. org_slug org = slug) (organizations d) = Some org \<and> org_isActive org \<and>
    find (\<lambda>u. usr_email u = email \<and> usr_organizationId u = org_id org) (users d) = Some usr \<and> usr_isActive usr \<and>
    \<not> cmp password (usr_passwordHash usr) \<longrightarrow>
      login cmp J cfg e d email password slug = (Inl (UnauthorizedError ''Invalid credentials''), d)) \<and>
   (find (\<lambda>org. org_slug org = slug) (organizations d) = Some org \<and> org_isActive org \<and>
    find (\<lambda>u. usr_email u = email \<and> usr_organizationId u = org_id org) (users d) = Some usr \<and> usr_isActive usr \<and>
    cmp password (usr_passwordHash usr) \<and>
    jwt_sign J
        \<lparr>jwt_sub = usr_id usr, jwt_email = Some (usr_email usr),
         jwt_organizationId = org_id org, jwt_family = None, jwt_exp = None\<rparr>
        (jwt_accessSecret cfg) (jwt_accessExpiry cfg) (env_now e) = Inr accessToken \<and>
    jwt_sign J
        \<lparr>jwt_sub = usr_id usr, jwt_email = None,
         jwt_organizationId = org_id org, jwt_family = Some (env_uuid e), jwt_exp = None\<rparr>
        (jwt_refreshSecret cfg) (jwt_refreshExpiry cfg) (env_now e) = Inr refreshToken \<and>
    expiryToDate (jwt_refreshExpiry cfg) (env_now e) = Some expiresAt \<and>
    \<not> env_tokenCreate_rejects e \<and> \<not> env_userUpdate_rejects e \<longrightarrow>
      (\<exists>res. fst (login cmp J cfg e d email password slug) = Inr res \<and>
         lr_accessToken res = accessToken \<and> lr_refreshToken res = refreshToken \<and>
         us_id (lr_user res) = usr_id usr \<and>
         us_organizationId (lr_user res) = org_id org) \<and>
      refreshTokens (snd (login cmp J cfg e d email password slug)) = refreshTokens d @ [\<lparr>rt_id = env_rowId e, rt_token = refreshToken, rt_userId = usr_id usr,
             rt_family = env_uuid e, rt_expiresAt = expiresAt, rt_isRevoked = False\<rparr>])"
proof (intro conjI impI)
  assume "find (\<lambda>org. org_slug org = slug) (organizations d) = None \<or>
     (\<exists>org. find (\<lambda>org. org_slug org = slug) (organizations d) = Some org \<and> \<not> org_isActive org)"
  then show "login cmp J cfg e d email password slug = (Inl (NotFoundError ''Organization''), d)"
    by (rule login_no_organization)
next
  assume "find (\<lambda>org. org_slug org = slug) (organizations d) = Some org \<and> org_isActive org \<and>
    (find (\<lambda>u. usr_email u = email \<and> usr_organizationId u = org_id org) (users d) = None \<or>
     (\<exists>usr. find (\<lambda>u. usr_email u = email \<and> usr_organizationId u = org_id org) (users d) = Some usr \<and> \<not> usr_isActive usr))"
  then show "login cmp J cfg e d email password slug = (Inl (UnauthorizedError ''Invalid credentials''), d)"
    by (elim conjE) (rule login_no_user)
next
  assume "find (\<lambda>org. org_slug org = slug) (organizations d) = Some org \<and> org_isActive org \<and>
    find (\<lambda>u. usr_email u = email \<and> usr_organizationId u = org_id org) (users d) = Some usr \<and> usr_isActive usr \<and>
    \<not> cmp password (usr_passwordHash usr)"
  then show "login cmp J cfg e d email password slug = (Inl (UnauthorizedError ''Invalid credentials''), d)"
    by (elim conjE) (rule login_wrong_password [where cmp = cmp and password = password])
next
  assume h: "find (\<lambda>org. org_slug org = slug) (organizations d) = Some org \<and> org_isActive org \<and>
    find (\<lambda>u. usr_email u = email \<and> usr_organizationId u = org_id org) (users d) = Some usr \<and> usr_isActive usr \<and>
    cmp password (usr_passwordHash usr) \<and>
    jwt_sign J
        \<lparr>jwt_sub = usr_id usr, jwt_email = Some (usr_email usr),
         jwt_organizationId = org_id org, jwt_family = None, jwt_exp = None\<rparr>
        (jwt_accessSecret cfg) (jwt_accessExpiry cfg) (env_now e) = Inr accessToken \<and>
    jwt_sign J
        \<lparr>jwt_sub = usr_id usr, jwt_email = None,
         jwt_organizationId = org_id org, jwt_family = Some (env_uuid e), jwt_exp = None\<rparr>
        (jwt_refreshSecret cfg) (jwt_refreshExpiry cfg) (env_now e) = Inr refreshToken \<and>
    expiryToDate (jwt_refreshExpiry cfg) (env_now e) = Some expiresAt \<and>
    \<not> env_tokenCreate_rejects e \<and> \<not> env_userUpdate_rejects e"
  then have l: "login cmp J cfg e d email password slug =
     (if env_userUpdate_rejects e
      then (Inl PrismaError, d\<lparr>refreshTokens := refreshTokens d @ [\<lparr>rt_id = env_rowId e, rt_token = refreshToken, rt_userId = usr_id usr,
             rt_family = env_uuid e, rt_expiresAt = expiresAt, rt_isRevoked = False\<rparr>]\<rparr>)
      else (Inr \<lparr>lr_accessToken = accessToken, lr_refreshToken = refreshToken,
                 lr_user =
                   \<lparr>us_id = usr_id usr, us_email = usr_email usr,
                    us_firstName = usr_firstName usr, us_lastName = usr_lastName usr,
                    us_organizationId = org_id org,
                    us_userRoles =
                      map (\<lambda>ur. (ur,
                             map_option
                               (\<lambda>r. (role_id r, role_name r, role_description r, role_isSystem r))
                               (find (\<lambda>r. role_id r = ur_roleId ur) (roles d))))
                        (filter (\<lambda>ur. ur_userId ur = usr_id usr) (userRoles d))\<rparr>\<rparr>,
            d\<lparr>refreshTokens := refreshTokens d @ [\<lparr>rt_id = env_rowId e, rt_token = refreshToken, rt_userId = usr_id usr,
             rt_family = env_uuid e, rt_expiresAt = expiresAt, rt_isRevoked = False\<rparr>],
              users := map (\<lambda>u. if usr_id u = usr_id usr
                                 then u\<lparr>usr_lastLoginAt := Some (env_now e)\<rparr> else u)
                         (users d)\<rparr>))"
    by (elim conjE) (rule login_issued [where cmp = cmp and password = password])
  from h have n: "\<not> env_userUpdate_rejects e" by simp
  show "\<exists>res. fst (login cmp J cfg e d email password slug) = Inr res \<and>
         lr_accessToken res = accessToken \<and> lr_refreshToken res = refreshToken \<and>
         us_id (lr_user res) = usr_id usr \<and>
         us_organizationId (lr_user res) = org_id org"
    unfolding l using n by simp
  show "refreshTokens (snd (login cmp J cfg e d email password slug)) = refreshTokens d @ [\<lparr>rt_id = env_rowId e, rt_token = refreshToken, rt_userId = usr_id usr,
             rt_family = env_uuid e, rt_expiresAt = expiresAt, rt_isRevoked = False\<rparr>]"
    unfolding l using n by simp
qed

theorem login_outcomes_witness:
  "login example_bcrypt example_jwt example_config example_env example_db
        ''manager@acme.com'' ''Admin@123'' ''acme-corpx'' =
     (Inl (NotFoundError ''Organization''), example_db) \<and>
   login example_bcrypt example_jwt example_config example_env example_db
        ''nobody@acme.com'' ''Admin@123'' ''acme-corp'' =
     (Inl (UnauthorizedError ''Invalid credentials''), example_db) \<and>
   login example_bcrypt example_jwt example_config example_env example_db
        ''manager@acme.com'' ''Admin@124'' ''acme-corp'' =
     (Inl (UnauthorizedError ''Invalid credentials''), example_db) \<and>
   (\<exists>res. fst (login example_bcrypt example_jwt example_config example_env example_db
        ''manager@acme.com'' ''Admin@123'' ''acme-corp'') = Inr res \<and>
      lr_accessToken res = ''as:u-1:access:iiiii'' \<and>
      lr_refreshToken res = ''rs:u-1:fam-9:iiiii'') \<and>
   refreshTokens (snd (login example_bcrypt example_jwt example_config example_env example_db
        ''manager@acme.com'' ''Admin@123'' ''acme-corp'')) =
     refreshTokens example_db @ [\<lparr>rt_id = ''rt-9'', rt_token = ''rs:u-1:fam-9:iiiii'', rt_userId = ''u-1'',
        rt_family = ''fam-9'', rt_expiresAt = 604805000, rt_isRevoked = False\<rparr>]"
proof -
  note t = login_outcomes [where cmp = example_bcrypt and J = example_jwt and cfg = example_config
      and e = example_env and d = example_db]
  have o: "org_isActive \<lparr>org_id = ''o-1'', org_slug = ''acme-corp'', org_isActive = True\<rparr>" by simp
  have a: "login example_bcrypt example_jwt example_config example_env example_db
        ''manager@acme.com'' ''Admin@123'' ''acme-corpx'' =
     (Inl (NotFoundError ''Organization''), example_db)"
    by (rule t [THEN conjunct1, rule_format, OF disjI1, OF example_find_no_org])
  have b: "login example_bcrypt example_jwt example_config example_env example_db
        ''nobody@acme.com'' ''Admin@123'' ''acme-corp'' =
     (Inl (UnauthorizedError ''Invalid credentials''), example_db)"
    by (rule t [where org = "\<lparr>org_id = ''o-1'', org_slug = ''acme-corp'', org_isActive = True\<rparr>", THEN conjunct2, THEN conjunct1, rule_format])
       (intro conjI disjI1 example_find_org o example_find_no_user)
  have w: "\<not> example_bcrypt ''Admin@124'' (usr_passwordHash \<lparr>usr_id = ''u-1'', usr_email = ''manager@acme.com'', usr_organizationId = ''o-1'',
        usr_passwordHash = ''bcrypt(Admin@123)'', usr_firstName = ''Mia'',
        usr_lastName = ''Manager'', usr_isActive = True, usr_lastLoginAt = None\<rparr>)"
    by (simp add: example_bcrypt_def)
  have v: "example_bcrypt ''Admin@123'' (usr_passwordHash \<lparr>usr_id = ''u-1'', usr_email = ''manager@acme.com'', usr_organizationId = ''o-1'',
        usr_passwordHash = ''bcrypt(Admin@123)'', usr_firstName = ''Mia'',
        usr_lastName = ''Manager'', usr_isActive = True, usr_lastLoginAt = None\<rparr>)"
    by (simp add: example_bcrypt_def)
  have ua: "usr_isActive \<lparr>usr_id = ''u-1'', usr_email = ''manager@acme.com'', usr_organizationId = ''o-1'',
        usr_passwordHash = ''bcrypt(Admin@123)'', usr_firstName = ''Mia'',
        usr_lastName = ''Manager'', usr_isActive = True, usr_lastLoginAt = None\<rparr>" by simp
  have c: "login example_bcrypt example_jwt example_config example_env example_db
        ''manager@acme.com'' ''Admin@124'' ''acme-corp'' =
     (Inl (UnauthorizedError ''Invalid credentials''), example_db)"
    by (rule t [where org = "\<lparr>org_id = ''o-1'', org_slug = ''acme-corp'', org_isActive = True\<rparr>" and usr = "\<lparr>usr_id = ''u-1'', usr_email = ''manager@acme.com'', usr_organizationId = ''o-1'',
        usr_passwordHash = ''bcrypt(Admin@123)'', usr_firstName = ''Mia'',
        usr_lastName = ''Manager'', usr_isActive = True, usr_lastLoginAt = None\<rparr>",
        THEN conjunct2, THEN conjunct2, THEN conjunct1, rule_format])
       (intro conjI example_find_org o example_find_user ua w)
  have e5: "env_now example_env = 5000" "env_uuid example_env = ''fam-9''" "env_rowId example_env = ''rt-9''"
    by (simp_all add: example_env_def)
  have x: "expiryToDate (jwt_refreshExpiry example_config) (env_now example_env) = Some 604805000"
    unfolding e5(1) by (rule example_expiry)
  have nc: "\<not> env_tokenCreate_rejects example_env" and nu: "\<not> env_userUpdate_rejects example_env"
    by (simp_all add: example_env_def)
  have ok: "(\<exists>res. fst (login example_bcrypt example_jwt example_config example_env example_db
        ''manager@acme.com'' ''Admin@123'' ''acme-corp'') = Inr res \<and>
         lr_accessToken res = ''as:u-1:access:iiiii'' \<and>
         lr_refreshToken res = ''rs:u-1:fam-9:iiiii'' \<and>
         us_id (lr_user res) = usr_id \<lparr>usr_id = ''u-1'', usr_email = ''manager@acme.com'', usr_organizationId = ''o-1'',
        usr_passwordHash = ''bcrypt(Admin@123)'', usr_firstName = ''Mia'',
        usr_lastName = ''Manager'', usr_isActive = True, usr_lastLoginAt = None\<rparr> \<and>
         us_organizationId (lr_user res) = org_id \<lparr>org_id = ''o-1'', org_slug = ''acme-corp'', org_isActive = True\<rparr>) \<and>
      refreshTokens (snd (login example_bcrypt example_jwt example_config example_env example_db
        ''manager@acme.com'' ''Admin@123'' ''acme-corp'')) =
        refreshTokens example_db @
        [\<lparr>rt_id = env_rowId example_env, rt_token = ''rs:u-1:fam-9:iiiii'',
          rt_userId = usr_id \<lparr>usr_id = ''u-1'', usr_email = ''manager@acme.com'', usr_organizationId = ''o-1'',
        usr_passwordHash = ''bcrypt(Admin@123)'', usr_firstName = ''Mia'',
        usr_lastName = ''Manager'', usr_isActive = True, usr_lastLoginAt = None\<rparr>, rt_family = env_uuid example_env,
          rt_expiresAt = 604805000, rt_isRevoked = False\<rparr>]"
    by (rule t [where org = "\<lparr>org_id = ''o-1'', org_slug = ''acme-corp'', org_isActive = True\<rparr>" and usr = "\<lparr>usr_id = ''u-1'', usr_email = ''manager@acme.com'', usr_organizationId = ''o-1'',
        usr_passwordHash = ''bcrypt(Admin@123)'', usr_firstName = ''Mia'',
        usr_lastName = ''Manager'', usr_isActive = True, usr_lastLoginAt = None\<rparr>" and expiresAt = 604805000,
        THEN conjunct2, THEN conjunct2, THEN conjunct2, rule_format])
       (intro conjI example_find_org o example_find_user ua v
          example_login_signs [OF e5(1,2)] x nc nu)
  from ok have d1: "\<exists>res. fst (login example_bcrypt example_jwt example_config example_env example_db
        ''manager@acme.com'' ''Admin@123'' ''acme-corp'') = Inr res \<and>
      lr_accessToken res = ''as:u-1:access:iiiii'' \<and>
      lr_refreshToken res = ''rs:u-1:fam-9:iiiii''"
    by blast
  have d2: "refreshTokens (snd (login example_bcrypt example_jwt example_config example_env example_db
        ''manager@acme.com'' ''Admin@123'' ''acme-corp'')) =
     refreshTokens example_db @ [\<lparr>rt_id = ''rt-9'', rt_token = ''rs:u-1:fam-9:iiiii'', rt_userId = ''u-1'',
        rt_family = ''fam-9'', rt_expiresAt = 604805000, rt_isRevoked = False\<rparr>]"
    using ok [THEN conjunct2] by (simp add: e5)
  from a b c d1 d2 show ?thesis by (intro conjI)
qed

text \<open>
  C6 as stated does not hold for the organization field: from a triple that logs in,
  altering the slug to one that names no organization gives NotFound with the message
  \<open>Organization not found\<close> and status 404, where altering the password gives
  Unauthorized with \<open>Invalid credentials\<close> and status 401.
\<close>

theorem login_wrong_organization_counterexample:
  "\<not> isl (fst (login example_bcrypt example_jwt example_config example_env example_db
        ''manager@acme.com'' ''Admin@123'' ''acme-corp'')) \<and>
   fst (login example_bcrypt example_jwt example_config example_env example_db
        ''manager@acme.com'' ''Admin@123'' ''acme-corpx'') =
     Inl (AppError ''Organization not found'' 404 ''NOT_FOUND'') \<and>
   fst (login example_bcrypt example_jwt example_config example_env example_db
        ''manager@acme.com'' ''Admin@124'' ''acme-corp'') =
     Inl (AppError ''Invalid credentials'' 401 ''UNAUTHORIZED'')"
proof -
  have e: "env_now example_env = 5000" "env_uuid example_env = ''fam-9''"
    "env_rowId example_env = ''rt-9''" "\<not> env_tokenCreate_rejects example_env"
    and nu: "\<not> env_userUpdate_rejects example_env"
    by (simp_all add: example_env_def)
  have v: "\<not> isl (fst (login example_bcrypt example_jwt example_config example_env example_db
        ''manager@acme.com'' ''Admin@123'' ''acme-corp''))"
    unfolding example_login [OF e] using nu by simp
  have a: "fst (login example_bcrypt example_jwt example_config example_env example_db
        ''manager@acme.com'' ''Admin@123'' ''acme-corpx'') =
     Inl (AppError ''Organization not found'' 404 ''NOT_FOUND'')"
    unfolding login_no_organization [OF disjI1, OF example_find_no_org]
    by (simp add: NotFoundError_def)
  have o: "org_isActive \<lparr>org_id = ''o-1'', org_slug = ''acme-corp'', org_isActive = True\<rparr>" by simp
  have ua: "usr_isActive \<lparr>usr_id = ''u-1'', usr_email = ''manager@acme.com'', usr_organizationId = ''o-1'',
        usr_passwordHash = ''bcrypt(Admin@123)'', usr_firstName = ''Mia'',
        usr_lastName = ''Manager'', usr_isActive = True, usr_lastLoginAt = None\<rparr>" by simp
  have w: "\<not> example_bcrypt ''Admin@124'' (usr_passwordHash \<lparr>usr_id = ''u-1'', usr_email = ''manager@acme.com'', usr_organizationId = ''o-1'',
        usr_passwordHash = ''bcrypt(Admin@123)'', usr_firstName = ''Mia'',
        usr_lastName = ''Manager'', usr_isActive = True, usr_lastLoginAt = None\<rparr>)"
    by (simp add: example_bcrypt_def)
  have b: "fst (login example_bcrypt example_jwt example_config example_env example_db
        ''manager@acme.com'' ''Admin@124'' ''acme-corp'') =
     Inl (AppError ''Invalid credentials'' 401 ''UNAUTHORIZED'')"
    unfolding login_wrong_password [where cmp = example_bcrypt and password = "''Admin@124''",
        OF example_find_org o example_find_user ua w]
    by (simp add: UnauthorizedError_def)
  from v a b show ?thesis by (intro conjI)
qed

text \<open>
  C9, evaluated where the code departs from it. The credentials are valid and the token
  pair has been issued, its refresh-token row stored. The store rejects the update of
  the last-login time: \<open>login\<close> fails with the storage error instead of returning the
  pair, and the row just created stays in the store with no one holding its token. The
  same call returns the pair when the store accepts the update.
\<close>

theorem login_fails_on_last_login_update:
  "login example_bcrypt example_jwt example_config (example_env\<lparr>env_userUpdate_rejects := True\<rparr>) example_db
        ''manager@acme.com'' ''Admin@123'' ''acme-corp'' =
     (Inl PrismaError,
      example_db\<lparr>refreshTokens := refreshTokens example_db @ [\<lparr>rt_id = ''rt-9'', rt_token = ''rs:u-1:fam-9:iiiii'', rt_userId = ''u-1'',
        rt_family = ''fam-9'', rt_expiresAt = 604805000, rt_isRevoked = False\<rparr>]\<rparr>) \<and>
   fst (login example_bcrypt example_jwt example_config example_env example_db
        ''manager@acme.com'' ''Admin@123'' ''acme-corp'') =
     Inr \<lparr>lr_accessToken = ''as:u-1:access:iiiii'',
          lr_refreshToken = ''rs:u-1:fam-9:iiiii'',
          lr_user =
            \<lparr>us_id = ''u-1'', us_email = ''manager@acme.com'', us_firstName = ''Mia'',
             us_lastName = ''Manager'', us_organizationId = ''o-1'',
             us_userRoles =
               [(\<lparr>ur_userId = ''u-1'', ur_roleId = ''r-1''\<rparr>,
                 Some (''r-1'', ''MANAGER'', ''Team manager'', True)),
                (\<lparr>ur_userId = ''u-1'', ur_roleId = ''r-2''\<rparr>,
                 Some (''r-2'', ''USER'', ''Standard user'', True)),
                (\<lparr>ur_userId = ''u-1'', ur_roleId = ''r-3''\<rparr>,
                 Some (''r-3'', ''LEGACY'', ''Retired role'', False))]\<rparr>\<rparr>"
proof -
  have e: "env_now example_env = 5000" "env_uuid example_env = ''fam-9''"
    "env_rowId example_env = ''rt-9''" "\<not> env_tokenCreate_rejects example_env"
    and nu: "\<not> env_userUpdate_rejects example_env"
    by (simp_all add: example_env_def)
  have e': "env_now (example_env\<lparr>env_userUpdate_rejects := True\<rparr>) = 5000" "env_uuid (example_env\<lparr>env_userUpdate_rejects := True\<rparr>) = ''fam-9''"
    "env_rowId (example_env\<lparr>env_userUpdate_rejects := True\<rparr>) = ''rt-9''" "\<not> env_tokenCreate_rejects (example_env\<lparr>env_userUpdate_rejects := True\<rparr>)"
    by (simp_all add: example_env_def)
  have r: "login example_bcrypt example_jwt example_config (example_env\<lparr>env_userUpdate_rejects := True\<rparr>) example_db
        ''manager@acme.com'' ''Admin@123'' ''acme-corp'' =
     (Inl PrismaError,
      example_db\<lparr>refreshTokens := refreshTokens example_db @ [\<lparr>rt_id = ''rt-9'', rt_token = ''rs:u-1:fam-9:iiiii'', rt_userId = ''u-1'',
        rt_family = ''fam-9'', rt_expiresAt = 604805000, rt_isRevoked = False\<rparr>]\<rparr>)"
    unfolding example_login [OF e'] by simp
  have roles: "map (\<lambda>ur. (ur,
                   map_option
                     (\<lambda>r. (role_id r, role_name r, role_description r, role_isSystem r))
                     (find (\<lambda>r. role_id r = ur_roleId ur) (roles example_db))))
              (filter (\<lambda>ur. ur_userId ur = ''u-1'') (userRoles example_db)) =
      [(\<lparr>ur_userId = ''u-1'', ur_roleId = ''r-1''\<rparr>,
        Some (''r-1'', ''MANAGER'', ''Team manager'', True)),
       (\<lparr>ur_userId = ''u-1'', ur_roleId = ''r-2''\<rparr>,
        Some (''r-2'', ''USER'', ''Standard user'', True)),
       (\<lparr>ur_userId = ''u-1'', ur_roleId = ''r-3''\<rparr>,
        Some (''r-3'', ''LEGACY'', ''Retired role'', False))]"
    by (simp add: example_db_def)
  have v: "fst (login example_bcrypt example_jwt example_config example_env example_db
        ''manager@acme.com'' ''Admin@123'' ''acme-corp'') =
     Inr \<lparr>lr_accessToken = ''as:u-1:access:iiiii'',
          lr_refreshToken = ''rs:u-1:fam-9:iiiii'',
          lr_user =
            \<lparr>us_id = ''u-1'', us_email = ''manager@acme.com'', us_firstName = ''Mia'',
             us_lastName = ''Manager'', us_organizationId = ''o-1'',
             us_userRoles =
               [(\<lparr>ur_userId = ''u-1'', ur_roleId = ''r-1''\<rparr>,
                 Some (''r-1'', ''MANAGER'', ''Team manager'', True)),
                (\<lparr>ur_userId = ''u-1'', ur_roleId = ''r-2''\<rparr>,
                 Some (''r-2'', ''USER'', ''Standard user'', True)),
                (\<lparr>ur_userId = ''u-1'', ur_roleId = ''r-3''\<rparr>,
                 Some (''r-3'', ''LEGACY'', ''Retired role'', False))]\<rparr>\<rparr>"
    unfolding example_login [OF e] roles using nu by simp
  from r v show ?thesis by (intro conjI)
qed

section \<open>The family invariant on the other paths\<close>

text \<open>
  Apart from the rotation whose revocation is rejected while its successor is created,
  every operation keeps the invariant: logout, forced logout and replay handling only
  set revoked flags; login adds one row of a family that \<open>uuidv4()\<close> has just made
  (taken to be new to the table); a rotation whose revocation is served revokes the
  only active row of the family before the successor counts.
\<close>

lemma family_invariant_iff:
  "family_invariant d \<longleftrightarrow> (\<forall>f. length (active_in_family d f) \<le> 1)"
proof
  assume inv: "family_invariant d"
  show "\<forall>f. length (active_in_family d f) \<le> 1"
  proof
    fix f
    show "length (active_in_family d f) \<le> 1"
    proof (cases "active_in_family d f")
      case Nil
      then show ?thesis by simp
    next
      case (Cons t ts)
      then have "t \<in> set (active_in_family d f)" by simp
      then have "t \<in> set (refreshTokens d)" and "rt_family t = f"
        by (simp_all add: active_in_family_def)
      with inv show ?thesis
        by (auto simp: family_invariant_def list_all_iff)
    qed
  qed
next
  assume "\<forall>f. length (active_in_family d f) \<le> 1"
  then show "family_invariant d"
    by (simp add: family_invariant_def list_all_iff)
qed

text \<open>A write that only sets revoked flags cannot add an active row to any family.\<close>

lemma active_after_revoking:
  assumes "\<And>t. g t = t \<or> g t = t\<lparr>rt_isRevoked := True\<rparr>"
  shows "length (filter (\<lambda>t. rt_family t = f \<and> \<not> rt_isRevoked t) (map g rows)) \<le>
         length (filter (\<lambda>t. rt_family t = f \<and> \<not> rt_isRevoked t) rows)"
proof (induction rows)
  case Nil
  show ?case by simp
next
  case (Cons r rows)
  from assms [of r] show ?case
  proof
    assume "g r = r"
    with Cons show ?thesis by simp
  next
    assume "g r = r\<lparr>rt_isRevoked := True\<rparr>"
    with Cons show ?thesis by simp
  qed
qed

lemma family_invariant_revoking:
  assumes inv: "family_invariant d"
    and g: "\<And>t. g t = t \<or> g t = t\<lparr>rt_isRevoked := True\<rparr>"
    and d': "refreshTokens d' = map g (refreshTokens d)"
  shows "family_invariant d'"
  unfolding family_invariant_iff
proof
  fix f
  have "length (active_in_family d' f) \<le> length (active_in_family d f)"
    unfolding active_in_family_def d' by (rule active_after_revoking [OF g])
  also from inv have "\<dots> \<le> 1"
    by (simp add: family_invariant_iff)
  finally show "length (active_in_family d' f) \<le> 1" .
qed

lemma family_invariant_same_rows:
  "refreshTokens d' = refreshTokens d \<Longrightarrow> family_invariant d' = family_invariant d"
  by (simp add: family_invariant_def active_in_family_def)

text \<open>Logout, forced logout and the replay branch only set revoked flags.\<close>

lemma family_invariant_logout:
  assumes "family_invariant d"
  shows "family_invariant (snd (logout J C e (c, d) accessToken refreshToken userId))"
proof (cases refreshToken)
  case None
  then show ?thesis using assms by (simp add: logout_store)
next
  case (Some rt)
  show ?thesis
  proof (cases "rt = []")
    case True
    with Some assms show ?thesis by (simp add: logout_store)
  next
    case False
    have "family_invariant
        (d\<lparr>refreshTokens :=
             map (\<lambda>t. if rt_token t = rt \<and> rt_userId t = userId
                       then t\<lparr>rt_isRevoked := True\<rparr> else t)
               (refreshTokens d)\<rparr>)"
      by (rule family_invariant_revoking [OF assms, where
            g = "\<lambda>t. if rt_token t = rt \<and> rt_userId t = userId then t\<lparr>rt_isRevoked := True\<rparr> else t"])
         simp_all
    with Some False show ?thesis by (simp add: logout_store)
  qed
qed

lemma family_invariant_forceLogout:
  assumes "family_invariant d"
  shows "family_invariant (snd (forceLogout C (c, d) userId))"
proof -
  have "family_invariant
      (d\<lparr>refreshTokens :=
           map (\<lambda>t. if rt_userId t = userId \<and> \<not> rt_isRevoked t
                     then t\<lparr>rt_isRevoked := True\<rparr> else t)
             (refreshTokens d)\<rparr>)"
    by (rule family_invariant_revoking [OF assms, where
          g = "\<lambda>t. if rt_userId t = userId \<and> \<not> rt_isRevoked t then t\<lparr>rt_isRevoked := True\<rparr> else t"])
       simp_all
  then show ?thesis by (simp add: forceLogout_def Let_def)
qed


text \<open>Issuing a token appends at most one row, of a known family.\<close>

lemma generateTokenPair_rows:
  "refreshTokens (snd (generateTokenPair J cfg e d usr organizationId family)) = refreshTokens d \<or>
   (\<exists>n. refreshTokens (snd (generateTokenPair J cfg e d usr organizationId family)) =
          refreshTokens d @ [n] \<and>
        rt_family n = (case family of None \<Rightarrow> env_uuid e
                       | Some f \<Rightarrow> if f = [] then env_uuid e else f))"
  unfolding generateTokenPair_def Let_def
  by (simp split: sum.splits option.splits)

lemma generateTokenPair_create_rejected:
  assumes "env_tokenCreate_rejects e"
  shows "snd (generateTokenPair J cfg e d usr organizationId family) = d"
  using assms unfolding generateTokenPair_def Let_def
  by (simp split: sum.splits option.splits)

lemma family_invariant_append:
  assumes inv: "family_invariant d"
    and empty: "active_in_family d (rt_family n) = []"
    and rows: "refreshTokens d' = refreshTokens d @ [n]"
  shows "family_invariant d'"
  unfolding family_invariant_iff
proof
  fix f
  show "length (active_in_family d' f) \<le> 1"
  proof (cases "rt_family n = f")
    case True
    have "active_in_family d' f =
        active_in_family d f @ (if \<not> rt_isRevoked n then [n] else [])"
      using True by (simp add: active_in_family_def rows)
    with empty True show ?thesis by simp
  next
    case False
    then have "active_in_family d' f = active_in_family d f"
      by (simp add: active_in_family_def rows)
    with inv show ?thesis by (simp add: family_invariant_iff)
  qed
qed

lemma no_row_no_active:
  assumes "f \<notin> rt_family ` set (refreshTokens d)"
  shows "active_in_family d f = []"
  unfolding active_in_family_def filter_empty_conv using assms by blast

text \<open>Login, when the family id that \<open>uuidv4()\<close> returns is new to the table.\<close>

lemma login_rows:
  "refreshTokens (snd (login cmp J cfg e d email password slug)) = refreshTokens d \<or>
   (\<exists>n. refreshTokens (snd (login cmp J cfg e d email password slug)) = refreshTokens d @ [n] \<and>
        rt_family n = env_uuid e)"
proof -
  let ?same = "refreshTokens (snd (login cmp J cfg e d email password slug)) = refreshTokens d"
  show ?thesis
  proof (cases "find (\<lambda>org. org_slug org = slug) (organizations d)")
    case None
    then have ?same by (simp add: login_no_organization)
    then show ?thesis ..
  next
    case (Some org)
    note org = Some
    show ?thesis
    proof (cases "org_isActive org")
      case False
      with org have ?same by (simp add: login_no_organization)
      then show ?thesis ..
    next
      case True
      note active_org = True
      show ?thesis
      proof (cases "find (\<lambda>u. usr_email u = email \<and> usr_organizationId u = org_id org) (users d)")
        case None
        with org active_org have ?same by (simp add: login_no_user)
        then show ?thesis ..
      next
        case (Some usr)
        note usr = Some
        show ?thesis
        proof (cases "usr_isActive usr")
          case False
          with org active_org usr have ?same by (simp add: login_no_user)
          then show ?thesis ..
        next
          case True
          note active_usr = True
          show ?thesis
          proof (cases "cmp password (usr_passwordHash usr)")
            case False
            have ?same
              unfolding login_wrong_password [where cmp = cmp and password = password,
                  OF org active_org usr active_usr False]
              by simp
            then show ?thesis ..
          next
            case True
            obtain r d1 where g: "generateTokenPair J cfg e d usr (org_id org) None = (r, d1)"
              by (cases "generateTokenPair J cfg e d usr (org_id org) None")
            have "refreshTokens (snd (login cmp J cfg e d email password slug)) = refreshTokens d1"
              unfolding login_verified [where cmp = cmp and password = password,
                  OF org active_org usr active_usr True] g
              by (cases r) simp_all
            moreover have "d1 = snd (generateTokenPair J cfg e d usr (org_id org) None)"
              by (simp add: g)
            ultimately show ?thesis
              using generateTokenPair_rows [of J cfg e d usr "org_id org" None] by simp
          qed
        qed
      qed
    qed
  qed
qed

lemma family_invariant_login:
  assumes inv: "family_invariant d"
    and fresh: "env_uuid e \<notin> rt_family ` set (refreshTokens d)"
  shows "family_invariant (snd (login cmp J cfg e d email password slug))"
  using login_rows [of cmp J cfg e d email password slug]
proof
  assume "refreshTokens (snd (login cmp J cfg e d email password slug)) = refreshTokens d"
  from family_invariant_same_rows [OF this] inv show ?thesis by simp
next
  assume "\<exists>n. refreshTokens (snd (login cmp J cfg e d email password slug)) = refreshTokens d @ [n] \<and>
        rt_family n = env_uuid e"
  then obtain n where n: "refreshTokens (snd (login cmp J cfg e d email password slug)) = refreshTokens d @ [n]"
    "rt_family n = env_uuid e"
    by blast
  have "active_in_family d (rt_family n) = []"
    unfolding n(2) using fresh by (rule no_row_no_active)
  from family_invariant_append [OF inv this n(1)] show ?thesis .
qed


text \<open>
  Refresh, in every branch but the one where the revocation of the presented token is
  rejected and the creation of its successor is not.
\<close>

lemma at_most_one_eq:
  assumes "length xs \<le> 1" and "a \<in> set xs" and "b \<in> set xs"
  shows "a = b"
proof (cases xs)
  case Nil
  with assms(2) show ?thesis by simp
next
  case (Cons x ys)
  with assms(1) have "ys = []" by simp
  with Cons assms(2,3) show ?thesis by simp
qed

lemma update_id_family:
  "rt_family ` set (refreshToken_update_id rid rows) = rt_family ` set rows"
proof -
  have "map rt_family (refreshToken_update_id rid rows) = map rt_family rows"
    by (simp add: refreshToken_update_id_def)
  then have "set (map rt_family (refreshToken_update_id rid rows)) = set (map rt_family rows)"
    by simp
  then show ?thesis by (simp only: set_map)
qed

lemma rotated_family_empty:
  assumes inv: "family_invariant d"
    and st: "st \<in> set (refreshTokens d)" "\<not> rt_isRevoked st"
  shows "filter (\<lambda>t. rt_family t = rt_family st \<and> \<not> rt_isRevoked t)
           (refreshToken_update_id (rt_id st) (refreshTokens d)) = []"
  unfolding filter_empty_conv
proof (intro ballI notI)
  fix t
  assume t: "t \<in> set (refreshToken_update_id (rt_id st) (refreshTokens d))"
    and a: "rt_family t = rt_family st \<and> \<not> rt_isRevoked t"
  from t obtain r where r: "r \<in> set (refreshTokens d)"
    and tr: "t = (if rt_id r = rt_id st then r\<lparr>rt_isRevoked := True\<rparr> else r)"
    unfolding refreshToken_update_id_def set_map by (rule imageE)
  have ne: "rt_id r \<noteq> rt_id st"
  proof
    assume "rt_id r = rt_id st"
    with tr have "rt_isRevoked t" by simp
    with a show False by simp
  qed
  with tr have "t = r" by simp
  with a r have "r \<in> set (active_in_family d (rt_family st))"
    by (simp add: active_in_family_def)
  moreover from st have "st \<in> set (active_in_family d (rt_family st))"
    by (simp add: active_in_family_def)
  moreover from inv have "length (active_in_family d (rt_family st)) \<le> 1"
    by (simp add: family_invariant_iff)
  ultimately have "r = st" by (rule at_most_one_eq [rotated])
  with ne show False by simp
qed

lemma family_invariant_rotation:
  assumes inv: "family_invariant d"
    and fresh: "env_uuid e \<notin> rt_family ` set (refreshTokens d)"
    and st: "st \<in> set (refreshTokens d)" "\<not> rt_isRevoked st"
  shows "family_invariant
           (snd (generateTokenPair J cfg e
                   (d\<lparr>refreshTokens := refreshToken_update_id (rt_id st) (refreshTokens d)\<rparr>)
                   usr organizationId (Some (rt_family st))))"
proof -
  let ?d1 = "d\<lparr>refreshTokens := refreshToken_update_id (rt_id st) (refreshTokens d)\<rparr>"
  let ?F = "case Some (rt_family st) of None \<Rightarrow> env_uuid e
            | Some f \<Rightarrow> if f = [] then env_uuid e else f"
  have inv1: "family_invariant ?d1"
    by (rule family_invariant_revoking [OF inv, where
          g = "\<lambda>t. if rt_id t = rt_id st then t\<lparr>rt_isRevoked := True\<rparr> else t"])
       (simp_all add: refreshToken_update_id_def)
  have empty: "active_in_family ?d1 ?F = []"
  proof (cases "rt_family st = []")
    case True
    have "env_uuid e \<notin> rt_family ` set (refreshTokens ?d1)"
      using fresh by (simp add: update_id_family)
    then have "active_in_family ?d1 (env_uuid e) = []"
      by (rule no_row_no_active)
    with True show ?thesis by simp
  next
    case False
    have "active_in_family ?d1 (rt_family st) = []"
      unfolding active_in_family_def using rotated_family_empty [OF inv st] by simp
    with False show ?thesis by simp
  qed
  from generateTokenPair_rows [of J cfg e ?d1 usr organizationId "Some (rt_family st)"]
  show ?thesis
  proof
    assume "refreshTokens (snd (generateTokenPair J cfg e ?d1 usr organizationId (Some (rt_family st)))) =
        refreshTokens ?d1"
    from family_invariant_same_rows [OF this] inv1 show ?thesis by simp
  next
    assume "\<exists>n. refreshTokens (snd (generateTokenPair J cfg e ?d1 usr organizationId (Some (rt_family st)))) =
          refreshTokens ?d1 @ [n] \<and> rt_family n = ?F"
    then obtain n where n: "refreshTokens (snd (generateTokenPair J cfg e ?d1 usr organizationId (Some (rt_family st)))) =
          refreshTokens ?d1 @ [n]" "rt_family n = ?F"
      by blast
    have "active_in_family ?d1 (rt_family n) = []"
      unfolding n(2) by (rule empty)
    from family_invariant_append [OF inv1 this n(1)] show ?thesis .
  qed
qed

lemma family_invariant_refresh:
  assumes inv: "family_invariant d"
    and fresh: "env_uuid e \<notin> rt_family ` set (refreshTokens d)"
    and served: "\<not> env_tokenUpdate_rejects e \<or> env_tokenCreate_rejects e"
  shows "family_invariant (snd (refresh J cfg e d tok))"
proof (cases "jwt_verify J tok (jwt_refreshSecret cfg) (env_now e)")
  case None
  with inv show ?thesis by (simp add: refresh_invalid)
next
  case (Some decoded)
  note verified = Some
  show ?thesis
  proof (cases "find (\<lambda>t. rt_token t = tok) (refreshTokens d)")
    case None
    with verified inv show ?thesis by (simp add: refresh_def)
  next
    case (Some st)
    note stored = Some
    then have mem: "st \<in> set (refreshTokens d)"
      by (auto simp: find_Some_iff)
    show ?thesis
    proof (cases "rt_isRevoked st")
      case True
      have "family_invariant
          (d\<lparr>refreshTokens := refreshToken_updateMany_family (rt_family st) (refreshTokens d)\<rparr>)"
        by (rule family_invariant_revoking [OF inv, where
              g = "\<lambda>t. if rt_family t = rt_family st then t\<lparr>rt_isRevoked := True\<rparr> else t"])
           (simp_all add: refreshToken_updateMany_family_def)
      then show ?thesis
        unfolding refresh_replay [OF verified stored True] by simp
    next
      case False
      note active = False
      show ?thesis
      proof (cases "rt_expiresAt st < env_now e")
        case True
        with verified stored active inv show ?thesis by (simp add: refresh_def)
      next
        case False
        note unexpired = False
        show ?thesis
        proof (cases "find (\<lambda>u. usr_id u = rt_userId st) (users d)")
          case None
          with verified stored active unexpired inv show ?thesis by (simp add: refresh_def)
        next
          case (Some usr)
          note owner = Some
          show ?thesis
          proof (cases "usr_isActive usr")
            case False
            with verified stored active unexpired owner inv show ?thesis
              by (simp add: refresh_def)
          next
            case True
            note rot = refresh_rotate [OF verified stored active unexpired owner True]
            show ?thesis
            proof (cases "env_tokenUpdate_rejects e")
              case True
              with served have "env_tokenCreate_rejects e" by simp
              then have "snd (refresh J cfg e d tok) = d"
                unfolding rot using True by (simp add: generateTokenPair_create_rejected)
              with inv show ?thesis by simp
            next
              case False
              have "snd (refresh J cfg e d tok) =
                  snd (generateTokenPair J cfg e
                         (d\<lparr>refreshTokens := refreshToken_update_id (rt_id st) (refreshTokens d)\<rparr>)
                         usr (jwt_organizationId decoded) (Some (rt_family st)))"
                unfolding rot using False by simp
              then show ?thesis
                using family_invariant_rotation [OF inv fresh mem active] by simp
            qed
          qed
        qed
      qed
    qed
  qed
qed

end
